theory Spec2Isabelle
  imports Complex_Main "HOL-Library.Char_ord" "HOL-Library.List_Lexorder"
begin

section \<open>JavaScript values\<close>

text \<open>
  The request body of the checkout route is parsed JSON, so the cart is a dynamically
  typed value. JavaScript numbers are IEEE-754 doubles; their arithmetic is not available
  in HOL, so the number type is a type parameter \<open>'n\<close> and every operation the code applies
  to numbers is a field of \<open>numops\<close>. No theorem below depends on how these operations round.
\<close>

datatype 'n json =
    JNull
  | JBool bool
  | JNum 'n
  | JStr string
  | JArr "'n json list"
  | JObj "(string \<times> 'n json) list"

record 'n numops =
  num_of :: "int \<Rightarrow> 'n"
  nadd :: "'n \<Rightarrow> 'n \<Rightarrow> 'n"
  nmul :: "'n \<Rightarrow> 'n \<Rightarrow> 'n"
  ndiv :: "'n \<Rightarrow> 'n \<Rightarrow> 'n"
  nle :: "'n \<Rightarrow> 'n \<Rightarrow> bool"
  ntruthy :: "'n \<Rightarrow> bool"
  coerce :: "'n json option \<Rightarrow> 'n"
  to_text :: "'n json option \<Rightarrow> string"

text \<open>
  \<open>num_of\<close> is a numeric literal, \<open>ntruthy x\<close> says that \<open>x\<close> is neither zero nor NaN,
  \<open>coerce\<close> is ToNumber and \<open>to_text\<close> is ToString on a value that is not already of
  that type. \<open>None\<close> stands for \<open>undefined\<close> throughout.
\<close>

datatype js_error = Error string | TypeError string

fun message :: "js_error \<Rightarrow> string" where
  "message (Error m) = m"
| "message (TypeError m) = m"

fun truthy :: "'n numops \<Rightarrow> 'n json option \<Rightarrow> bool" where
  "truthy N None = False"
| "truthy N (Some JNull) = False"
| "truthy N (Some (JBool b)) = b"
| "truthy N (Some (JNum x)) = ntruthy N x"
| "truthy N (Some (JStr s)) = (s \<noteq> [])"
| "truthy N (Some (JArr xs)) = True"
| "truthy N (Some (JObj kvs)) = True"

text \<open>Truthiness of a value that is a string, \<open>null\<close> or \<open>undefined\<close>.\<close>

fun str_truthy :: "string option \<Rightarrow> bool" where
  "str_truthy None = False"
| "str_truthy (Some s) = (s \<noteq> [])"

text \<open>
  \<open>field v k\<close> is \<open>v.k\<close> for a value \<open>v\<close> other than \<open>null\<close> and a key \<open>k\<close> that is not a
  built-in property (the code reads \<open>id\<close>, \<open>name\<close>, \<open>price\<close> and \<open>quantity\<close>): an own property
  of an object, \<open>undefined\<close> on a primitive or an array. Reading a property of \<open>null\<close>
  throws; the callers below test for \<open>JNull\<close> first.
\<close>

fun field :: "'n json \<Rightarrow> string \<Rightarrow> 'n json option" where
  "field (JObj kvs) k = map_of kvs k"
| "field v k = None"

fun is_number :: "'n json option \<Rightarrow> bool" where
  "is_number (Some (JNum x)) = True"
| "is_number v = False"

fun to_number :: "'n numops \<Rightarrow> 'n json option \<Rightarrow> 'n" where
  "to_number N (Some (JNum x)) = x"
| "to_number N v = coerce N v"

fun to_string :: "'n numops \<Rightarrow> 'n json option \<Rightarrow> string" where
  "to_string N (Some (JStr s)) = s"
| "to_string N v = to_text N v"

section \<open>The orders table\<close>

datatype status = Pending | Paid | Failed

text \<open>
  One row of the table \<open>orders\<close> (supabase_schema.sql), with the column names of the
  schema; \<open>id\<close> and \<open>locale\<close> are written \<open>order_id\<close> and \<open>locale_col\<close>. Timestamps are
  milliseconds since the epoch. \<open>mapSupabaseOrderToOrder\<close> renames the columns to camel
  case (\<open>stripe_session_id\<close> becomes \<open>stripeSessionId\<close>, and so on); the routes read
  \<open>id\<close>, \<open>status\<close>, \<open>items\<close>, \<open>stripeSessionId\<close> and \<open>createdAt\<close> of the mapped object, which
  are the columns unchanged, so the model hands the row itself to the callers.
\<close>

record 'n order =
  order_id :: string
  status :: status
  items :: "'n json list"
  customer_email :: "string option"
  customer_name :: "string option"
  customer_phone :: "string option"
  locale_col :: string
  total_amount :: 'n
  processing_fee :: 'n
  currency :: "string option"
  amount_paid :: "'n option"
  stripe_session_id :: "string option"
  stripe_payment_intent_id :: "string option"
  stripe_session_url :: "string option"
  paid_at :: "nat option"
  failed_at :: "nat option"
  error_message :: "string option"
  shipping_name :: "string option"
  shipping_line1 :: "string option"
  shipping_line2 :: "string option"
  shipping_city :: "string option"
  shipping_state :: "string option"
  shipping_postal_code :: "string option"
  shipping_country :: "string option"
  tax_amount :: "'n option"
  tax_rate :: "'n option"
  tax_id :: "string option"
  metadata :: "'n json option"
  created_at :: nat
  updated_at :: nat

datatype level = LWarn | LError

text \<open>
  The state the routes act on: the adapter's connection flag (\<open>isConnected()\<close>), the table,
  and the log (entries of level warn and error, with their message text; info and debug
  entries are left out). \<open>client_error = Some m\<close> models a Supabase client that answers
  every request with \<open>{ data: null, error: { message: m } }\<close>.
\<close>

record 'n store =
  isConnected :: bool
  client_error :: "string option"
  orders :: "'n order list"
  logs :: "(level \<times> string) list"

definition logger :: "level \<Rightarrow> string \<Rightarrow> 'n store \<Rightarrow> 'n store" where
  "logger l m s = s\<lparr>logs := logs s @ [(l, m)]\<rparr>"

definition not_connected :: js_error where
  "not_connected = Error ''Database adapter is not connected''"

text \<open>
  The Supabase client is a library outside the repository. Its requests are modelled on
  the table directly: \<open>.single()\<close> answers with an error unless exactly one row is
  selected; an insert fails on a primary key that exists; an update fails when it would
  give a second row the same non-null \<open>stripe_session_id\<close> (the partial unique index of the
  schema), and changes nothing when it fails.
\<close>

definition single_row :: "'a list \<Rightarrow> string + 'a" where
  "single_row xs =
     (case xs of
        [x] \<Rightarrow> Inr x
      | _ \<Rightarrow> Inl ''JSON object requested, multiple (or no) rows returned'')"

definition select_where :: "'n store \<Rightarrow> ('n order \<Rightarrow> bool) \<Rightarrow> string + 'n order list" where
  "select_where s P =
     (case client_error s of
        Some m \<Rightarrow> Inl m
      | None \<Rightarrow> Inr (filter P (orders s)))"

definition select_single :: "'n store \<Rightarrow> ('n order \<Rightarrow> bool) \<Rightarrow> string + 'n order" where
  "select_single s P =
     (case select_where s P of
        Inl m \<Rightarrow> Inl m
      | Inr xs \<Rightarrow> single_row xs)"

definition session_taken :: "'n order list \<Rightarrow> string \<Rightarrow> string option \<Rightarrow> bool" where
  "session_taken rs i sid =
     (case sid of
        None \<Rightarrow> False
      | Some x \<Rightarrow> list_ex (\<lambda>q. order_id q \<noteq> i \<and> stripe_session_id q = Some x) rs)"

definition insert_single :: "'n store \<Rightarrow> 'n order \<Rightarrow> (string + 'n order) \<times> 'n store" where
  "insert_single s r =
     (case client_error s of
        Some m \<Rightarrow> (Inl m, s)
      | None \<Rightarrow>
          if list_ex (\<lambda>q. order_id q = order_id r) (orders s)
          then (Inl ''duplicate key value violates unique constraint orders_pkey'', s)
          else (Inr r, s\<lparr>orders := orders s @ [r]\<rparr>))"

definition update_single ::
  "'n store \<Rightarrow> string \<Rightarrow> ('n order \<Rightarrow> 'n order) \<Rightarrow> (string + 'n order) \<times> 'n store" where
  "update_single s i f =
     (case select_single s (\<lambda>r. order_id r = i) of
        Inl m \<Rightarrow> (Inl m, s)
      | Inr r \<Rightarrow>
          if session_taken (orders s) i (stripe_session_id (f r))
          then (Inl ''duplicate key value violates unique constraint orders_stripe_session_id_unique'', s)
          else (Inr (f r), s\<lparr>orders := map (\<lambda>q. if order_id q = i then f r else q) (orders s)\<rparr>))"

section \<open>The Supabase adapter\<close>

text \<open>
  The object \<open>db.createOrder\<close> receives from the service. \<open>None\<close> is an absent key.
\<close>

record 'n new_order =
  new_id :: string
  new_status :: "status option"
  new_items :: "'n json list"
  new_customerEmail :: "string option"
  new_customerName :: "string option"
  new_locale :: "string option"
  new_totalAmount :: 'n
  new_processingFee :: "'n option"
  new_createdAt :: "nat option"
  new_updatedAt :: "nat option"

text \<open>
  The row \<open>createOrder\<close> inserts. Columns the insert does not name take the default of the
  schema: \<open>tax_amount\<close> 0, \<open>currency\<close> \<open>'usd'\<close>, every other one \<open>NULL\<close>.
\<close>

definition inserted_row :: "'n numops \<Rightarrow> 'n new_order \<Rightarrow> nat \<Rightarrow> 'n order" where
  "inserted_row N d now =
     \<lparr> order_id = new_id d,
       status = (case new_status d of Some st \<Rightarrow> st | None \<Rightarrow> Pending),
       items = new_items d,
       customer_email = new_customerEmail d,
       customer_name = new_customerName d,
       customer_phone = None,
       locale_col = (if str_truthy (new_locale d) then the (new_locale d) else ''en''),
       total_amount = new_totalAmount d,
       processing_fee =
         (case new_processingFee d of
            Some fee \<Rightarrow> if ntruthy N fee then fee else num_of N 0
          | None \<Rightarrow> num_of N 0),
       currency = Some ''usd'',
       amount_paid = None,
       stripe_session_id = None,
       stripe_payment_intent_id = None,
       stripe_session_url = None,
       paid_at = None,
       failed_at = None,
       error_message = None,
       shipping_name = None,
       shipping_line1 = None,
       shipping_line2 = None,
       shipping_city = None,
       shipping_state = None,
       shipping_postal_code = None,
       shipping_country = None,
       tax_amount = Some (num_of N 0),
       tax_rate = None,
       tax_id = None,
       metadata = None,
       created_at = (case new_createdAt d of Some t \<Rightarrow> t | None \<Rightarrow> now),
       updated_at = (case new_updatedAt d of Some t \<Rightarrow> t | None \<Rightarrow> now) \<rparr>"

definition db_createOrder ::
  "'n numops \<Rightarrow> 'n store \<Rightarrow> 'n new_order \<Rightarrow> nat \<Rightarrow> (js_error + 'n order) \<times> 'n store" where
  "db_createOrder N s d now =
     (if \<not> isConnected s then (Inl not_connected, s)
      else
        case insert_single s (inserted_row N d now) of
          (Inl m, s') \<Rightarrow>
            (Inl (Error (''Failed to create order: '' @ m)),
             logger LError ''Supabase error creating order'' s')
        | (Inr r, s') \<Rightarrow> (Inr r, s'))"

definition db_findOrderByStripeSessionId ::
  "'n store \<Rightarrow> string \<Rightarrow> js_error + 'n order option" where
  "db_findOrderByStripeSessionId s sessionId =
     (if \<not> isConnected s then Inl not_connected
      else
        case select_single s (\<lambda>r. stripe_session_id r = Some sessionId) of
          Inl m \<Rightarrow> Inr None
        | Inr r \<Rightarrow> Inr (Some r))"

definition db_getOrderById :: "'n store \<Rightarrow> string \<Rightarrow> js_error + 'n order option" where
  "db_getOrderById s orderId =
     (if \<not> isConnected s then Inl not_connected
      else
        case select_single s (\<lambda>r. order_id r = orderId) of
          Inl m \<Rightarrow> db_findOrderByStripeSessionId s orderId
        | Inr r \<Rightarrow> Inr (Some r))"

text \<open>
  The \<open>additionalData\<close> argument of \<open>updateOrderStatus\<close>. \<open>taxRate\<close> distinguishes an absent
  key (\<open>None\<close>) from the value \<open>null\<close> (\<open>Some None\<close>), which the webhook passes.
\<close>

record 'n additionalData =
  stripeSessionId :: "string option"
  stripePaymentIntentId :: "string option"
  stripeSessionUrl :: "string option"
  paidAt :: "nat option"
  failedAt :: "nat option"
  error :: "string option"
  amountPaid :: "'n option"
  currency_new :: "string option"
  customerEmail :: "string option"
  customerName :: "string option"
  customerPhone :: "string option"
  shippingName :: "string option"
  shippingLine1 :: "string option"
  shippingLine2 :: "string option"
  shippingCity :: "string option"
  shippingState :: "string option"
  shippingPostalCode :: "string option"
  shippingCountry :: "string option"
  taxAmount :: "'n option"
  taxRate :: "'n option option"
  taxId :: "string option"
  processingFee :: "'n option"
  metadata_new :: "'n json option"

definition no_data :: "'n additionalData" where
  "no_data =
     \<lparr> stripeSessionId = None, stripePaymentIntentId = None, stripeSessionUrl = None,
       paidAt = None, failedAt = None, error = None, amountPaid = None, currency_new = None,
       customerEmail = None, customerName = None, customerPhone = None,
       shippingName = None, shippingLine1 = None, shippingLine2 = None, shippingCity = None,
       shippingState = None, shippingPostalCode = None, shippingCountry = None,
       taxAmount = None, taxRate = None, taxId = None, processingFee = None,
       metadata_new = None \<rparr>"

text \<open>
  The effect of \<open>.update(updateData)\<close> on the selected row. The source adds a key to
  \<open>updateData\<close> under a guard (\<open>if (additionalData.error) updateData.error_message = ...\<close>);
  a column takes the new value when that guard holds and keeps its value otherwise.
\<close>

definition keep_str :: "string option \<Rightarrow> string option \<Rightarrow> string option" where
  "keep_str new old = (if str_truthy new then new else old)"

definition keep_def :: "'a option \<Rightarrow> 'a option \<Rightarrow> 'a option" where
  "keep_def new old = (case new of Some v \<Rightarrow> Some v | None \<Rightarrow> old)"

definition updateData ::
  "'n numops \<Rightarrow> status \<Rightarrow> 'n additionalData \<Rightarrow> nat \<Rightarrow> 'n order \<Rightarrow> 'n order" where
  "updateData N st d now r =
     r\<lparr> status := st,
        updated_at := now,
        stripe_session_id := keep_str (stripeSessionId d) (stripe_session_id r),
        stripe_payment_intent_id := keep_str (stripePaymentIntentId d) (stripe_payment_intent_id r),
        stripe_session_url := keep_str (stripeSessionUrl d) (stripe_session_url r),
        paid_at := keep_def (paidAt d) (paid_at r),
        failed_at := keep_def (failedAt d) (failed_at r),
        error_message := keep_str (error d) (error_message r),
        amount_paid := keep_def (amountPaid d) (amount_paid r),
        currency := keep_str (currency_new d) (currency r),
        customer_email := keep_str (customerEmail d) (customer_email r),
        customer_name := keep_str (customerName d) (customer_name r),
        customer_phone := keep_str (customerPhone d) (customer_phone r),
        shipping_name := keep_str (shippingName d) (shipping_name r),
        shipping_line1 := keep_str (shippingLine1 d) (shipping_line1 r),
        shipping_line2 := keep_str (shippingLine2 d) (shipping_line2 r),
        shipping_city := keep_str (shippingCity d) (shipping_city r),
        shipping_state := keep_str (shippingState d) (shipping_state r),
        shipping_postal_code := keep_str (shippingPostalCode d) (shipping_postal_code r),
        shipping_country := keep_str (shippingCountry d) (shipping_country r),
        tax_amount := keep_def (taxAmount d) (tax_amount r),
        tax_rate := (case taxRate d of Some v \<Rightarrow> v | None \<Rightarrow> tax_rate r),
        tax_id := keep_str (taxId d) (tax_id r),
        processing_fee := (case processingFee d of Some fee \<Rightarrow> fee | None \<Rightarrow> processing_fee r),
        metadata := (if truthy N (metadata_new d) then metadata_new d else metadata r) \<rparr>"

definition db_updateOrderStatus ::
  "'n numops \<Rightarrow> 'n store \<Rightarrow> string \<Rightarrow> status \<Rightarrow> 'n additionalData \<Rightarrow> nat
     \<Rightarrow> (js_error + 'n order) \<times> 'n store" where
  "db_updateOrderStatus N s orderId st d now =
     (if \<not> isConnected s then (Inl not_connected, s)
      else
        case db_getOrderById s orderId of
          Inl e \<Rightarrow> (Inl e, s)
        | Inr existingOrder \<Rightarrow>
            if (case existingOrder of Some e \<Rightarrow> status e = st \<and> st = Paid | None \<Rightarrow> False)
            then (Inr (the existingOrder),
                  logger LWarn ''Order already in paid status. Skipping update.'' s)
            else
              (case update_single s orderId (updateData N st d now) of
                 (Inl m, s') \<Rightarrow>
                   (Inl (Error (''Failed to update order: '' @ m)),
                    logger LError ''Supabase update error for order'' s')
               | (Inr r, s') \<Rightarrow> (Inr r, s')))"

text \<open>
  \<open>findPendingOrderByItems\<close> compares the sorted, comma-joined item ids. Reading \<open>item.id\<close>
  of a \<open>null\<close> item throws.
\<close>

fun item_ids :: "'n numops \<Rightarrow> 'n json list \<Rightarrow> js_error + string list" where
  "item_ids N [] = Inr []"
| "item_ids N (item # rest) =
     (case item of
        JNull \<Rightarrow> Inl (TypeError ''Cannot read properties of null (reading id)'')
      | _ \<Rightarrow>
          (case item_ids N rest of
             Inl e \<Rightarrow> Inl e
           | Inr ids \<Rightarrow> Inr (to_string N (field item ''id'') # ids)))"

fun join :: "string \<Rightarrow> string list \<Rightarrow> string" where
  "join sep [] = []"
| "join sep [x] = x"
| "join sep (x # y # ys) = x @ sep @ join sep (y # ys)"

definition sorted_ids :: "'n numops \<Rightarrow> 'n json list \<Rightarrow> js_error + string" where
  "sorted_ids N its =
     (case item_ids N its of
        Inl e \<Rightarrow> Inl e
      | Inr ids \<Rightarrow> Inr (join '','' (sort ids)))"

fun find_matching ::
  "'n numops \<Rightarrow> string \<Rightarrow> 'n order list \<Rightarrow> js_error + 'n order option" where
  "find_matching N itemIds [] = Inr None"
| "find_matching N itemIds (r # rs) =
     (case sorted_ids N (items r) of
        Inl e \<Rightarrow> Inl e
      | Inr orderItemIds \<Rightarrow>
          if orderItemIds = itemIds then Inr (Some r) else find_matching N itemIds rs)"

definition five_minutes :: int where
  "five_minutes = 5 * 60 * 1000"

definition db_findPendingOrderByItems ::
  "'n numops \<Rightarrow> 'n store \<Rightarrow> 'n json list \<Rightarrow> string option \<Rightarrow> nat
     \<Rightarrow> (js_error + 'n order option) \<times> 'n store" where
  "db_findPendingOrderByItems N s its email now =
     (if \<not> isConnected s then (Inl not_connected, s)
      else
        case sorted_ids N its of
          Inl e \<Rightarrow> (Inl e, s)
        | Inr itemIds \<Rightarrow>
            (case select_where s
                    (\<lambda>r. status r = Pending \<and> int now - five_minutes \<le> int (created_at r)
                         \<and> (str_truthy email \<longrightarrow> customer_email r = email)) of
               Inl m \<Rightarrow> (Inr None, logger LError ''Supabase error finding pending order by items'' s)
             | Inr data \<Rightarrow> (find_matching N itemIds data, s)))"

text \<open>\<open>.order('created_at', { ascending: false })\<close>: newest first.\<close>

definition newest_first :: "'n order list \<Rightarrow> 'n order list" where
  "newest_first rs = rev (sort_key created_at rs)"

definition db_getOrdersByEmail :: "'n store \<Rightarrow> string \<Rightarrow> js_error + 'n order list" where
  "db_getOrdersByEmail s email =
     (if \<not> isConnected s then Inl not_connected
      else
        case select_where s (\<lambda>r. customer_email r = Some email) of
          Inl m \<Rightarrow> Inl (Error m)
        | Inr data \<Rightarrow> Inr (newest_first data))"

section \<open>The order service\<close>

text \<open>
  \<open>generateOrderId\<close> reads the clock and \<open>Math.random()\<close>; the model takes the timestamp
  and the random text (\<open>Math.random().toString(36).substring(2, 9)\<close>) as arguments.
\<close>

fun decimal :: "nat \<Rightarrow> string" where
  "decimal n =
     (if n < 10 then [char_of (48 + n)]
      else decimal (n div 10) @ [char_of (48 + n mod 10)])"

definition toUpperCase :: "string \<Rightarrow> string" where
  "toUpperCase cs =
     map (\<lambda>c. let k = (of_char c :: nat) in
               if 97 \<le> k \<and> k \<le> 122 then char_of (k - 32) else c) cs"

definition generateOrderId :: "nat \<Rightarrow> string \<Rightarrow> string" where
  "generateOrderId timestamp random = toUpperCase (''ORD-'' @ decimal timestamp @ ''-'' @ random)"

text \<open>The keys the checkout route passes to \<open>createOrder\<close>.\<close>

record 'n orderData =
  od_items :: "'n json list"
  od_customerEmail :: "string option"
  od_customerName :: "string option"
  od_locale :: "string option"
  od_totalAmount :: 'n
  od_status :: "status option"

definition createOrder ::
  "'n numops \<Rightarrow> 'n store \<Rightarrow> 'n orderData \<Rightarrow> nat \<Rightarrow> string
     \<Rightarrow> (js_error + 'n order) \<times> 'n store" where
  "createOrder N s d now random =
     (case db_createOrder N s
             \<lparr> new_id = generateOrderId now random,
               new_status = Some (case od_status d of Some st \<Rightarrow> st | None \<Rightarrow> Pending),
               new_items = od_items d,
               new_customerEmail = od_customerEmail d,
               new_customerName = od_customerName d,
               new_locale = od_locale d,
               new_totalAmount = od_totalAmount d,
               new_processingFee = None,
               new_createdAt = Some now,
               new_updatedAt = Some now \<rparr> now of
        (Inl e, s') \<Rightarrow>
          (Inl (Error (''Failed to create order: '' @ message e)),
           logger LError ''Error creating order'' s')
      | (Inr r, s') \<Rightarrow> (Inr r, s'))"

definition updateOrderStatus ::
  "'n numops \<Rightarrow> 'n store \<Rightarrow> string \<Rightarrow> status \<Rightarrow> 'n additionalData \<Rightarrow> nat
     \<Rightarrow> (js_error + 'n order) \<times> 'n store" where
  "updateOrderStatus N s orderId st d now =
     (case db_updateOrderStatus N s orderId st d now of
        (Inl e, s') \<Rightarrow>
          (Inl (Error (''Failed to update order: '' @ message e)),
           logger LError ''Error updating order'' s')
      | (Inr r, s') \<Rightarrow> (Inr r, s'))"

definition findOrderByStripeSessionId ::
  "'n store \<Rightarrow> string \<Rightarrow> 'n order option \<times> 'n store" where
  "findOrderByStripeSessionId s sessionId =
     (case db_findOrderByStripeSessionId s sessionId of
        Inl e \<Rightarrow> (None, logger LError ''Error finding order by session ID'' s)
      | Inr r \<Rightarrow> (r, s))"

definition findPendingOrderByItems ::
  "'n numops \<Rightarrow> 'n store \<Rightarrow> 'n json list \<Rightarrow> string option \<Rightarrow> nat
     \<Rightarrow> 'n order option \<times> 'n store" where
  "findPendingOrderByItems N s its email now =
     (case db_findPendingOrderByItems N s its email now of
        (Inl e, s') \<Rightarrow> (None, logger LError ''Error finding pending order by items'' s')
      | (Inr r, s') \<Rightarrow> (r, s'))"

definition getOrderById :: "'n store \<Rightarrow> string \<Rightarrow> 'n order option \<times> 'n store" where
  "getOrderById s orderId =
     (case db_getOrderById s orderId of
        Inl e \<Rightarrow> (None, logger LError ''Error getting order by ID'' s)
      | Inr r \<Rightarrow> (r, s))"

definition getOrdersByEmail :: "'n store \<Rightarrow> string \<Rightarrow> 'n order list \<times> 'n store" where
  "getOrdersByEmail s email =
     (case db_getOrdersByEmail s email of
        Inl e \<Rightarrow> ([], logger LError ''Error getting orders by email'' s)
      | Inr rs \<Rightarrow> (rs, s))"

section \<open>The payment provider\<close>

text \<open>
  The fields of a Stripe Checkout Session the routes read. An optional chain such as
  \<open>session.customer_details?.email\<close> is one field (\<open>sess_details_email\<close>), \<open>None\<close> when any
  link of the chain is missing.
\<close>

record 'n session =
  sess_id :: string
  sess_status :: "string option"
  sess_url :: "string option"
  sess_customer_email :: "string option"
  sess_details_email :: "string option"
  sess_details_name :: "string option"
  sess_details_phone :: "string option"
  sess_metadata_orderId :: "string option"
  sess_metadata_customerName :: "string option"
  sess_payment_intent :: "string option"
  sess_amount_total :: "'n json option"
  sess_currency :: "string option"
  sess_shipping_name :: "string option"
  sess_shipping_line1 :: "string option"
  sess_shipping_line2 :: "string option"
  sess_shipping_city :: "string option"
  sess_shipping_state :: "string option"
  sess_shipping_postal_code :: "string option"
  sess_shipping_country :: "string option"
  sess_amount_tax :: "'n json option"

record payment_intent =
  pi_id :: string
  pi_last_payment_error_message :: "string option"

datatype 'n event =
    CheckoutSessionCompleted "'n session"
  | PaymentIntentSucceeded payment_intent
  | PaymentIntentPaymentFailed payment_intent
  | CheckoutSessionAsyncPaymentFailed "'n session"
  | OtherEvent string

text \<open>The metadata the checkout route attaches to the session it asks for.\<close>

record session_metadata =
  md_orderId :: string
  md_locale :: string
  md_itemCount :: string
  md_totalAmount :: string
  md_customerName :: "string option"
  md_itemIds :: string
  md_firstItem :: "string option"

text \<open>
  The request \<open>stripe.checkout.sessions.create\<close> receives. \<open>line_items\<close> is derived from the
  cart item by item (name, description, image, \<open>Math.round(price * 100)\<close>, quantity); the
  model passes the cart itself. The constant keys of the request are left out.
\<close>

record 'n create_params =
  cp_line_items :: "'n json list"
  cp_success_url :: string
  cp_cancel_url :: string
  cp_customer_email :: "string option"
  cp_metadata :: session_metadata

text \<open>
  The Stripe client is outside the repository: its three calls are functions the routes
  are given, \<open>Inl\<close> when the call throws.
\<close>

record 'n stripe =
  constructEvent :: "string \<Rightarrow> string option \<Rightarrow> string \<Rightarrow> js_error + 'n event"
  sessions_retrieve :: "string \<Rightarrow> js_error + 'n session"
  sessions_create :: "'n create_params \<Rightarrow> string \<Rightarrow> js_error + 'n session"

record 'n env =
  stripe :: "'n stripe option"
  STRIPE_WEBHOOK_SECRET :: "string option"
  FRONTEND_URL :: "string option"

datatype body =
    ErrorBody string "string option"
  | Text string
  | Received "string option" "string option"
  | Checkout string string "string option" "string option"

text \<open>
  \<open>ErrorBody error message\<close> is \<open>{ error, message }\<close>, \<open>Received message warning\<close> is
  \<open>{ received: true, message, warning }\<close>, \<open>Checkout sessionId orderId url warning\<close> is
  \<open>{ sessionId, orderId, url, warning }\<close>. \<open>res.json\<close> without \<open>res.status\<close> answers 200.
\<close>

type_synonym response = "nat \<times> body"

section \<open>The webhook route\<close>

definition hundredth :: "'n numops \<Rightarrow> 'n json option \<Rightarrow> 'n" where
  "hundredth N v = ndiv N (to_number N v) (num_of N 100)"

definition first_str :: "string option \<Rightarrow> string option \<Rightarrow> string option" where
  "first_str a b = (if str_truthy a then a else b)"

definition paid_data :: "'n numops \<Rightarrow> 'n session \<Rightarrow> nat \<Rightarrow> 'n additionalData" where
  "paid_data N session now =
     \<lparr> stripeSessionId = Some (sess_id session),
       stripePaymentIntentId = first_str (sess_payment_intent session) None,
       stripeSessionUrl = None,
       paidAt = Some now,
       failedAt = None,
       error = None,
       amountPaid = Some (hundredth N (sess_amount_total session)),
       currency_new = first_str (sess_currency session) (Some ''usd''),
       customerEmail = first_str (sess_customer_email session) (sess_details_email session),
       customerName = first_str (sess_details_name session) (sess_metadata_customerName session),
       customerPhone = sess_details_phone session,
       shippingName = sess_shipping_name session,
       shippingLine1 = sess_shipping_line1 session,
       shippingLine2 = sess_shipping_line2 session,
       shippingCity = sess_shipping_city session,
       shippingState = sess_shipping_state session,
       shippingPostalCode = sess_shipping_postal_code session,
       shippingCountry = sess_shipping_country session,
       taxAmount =
         Some (if truthy N (sess_amount_tax session) then hundredth N (sess_amount_tax session)
               else num_of N 0),
       taxRate = Some None,
       taxId = None,
       processingFee = None,
       metadata_new = None \<rparr>"

definition ack :: response where
  "ack = (200, Received None None)"

text \<open>
  The body of a \<open>try\<close> block of the handler gives \<open>Inl e\<close> when it throws, \<open>Inr (Some r)\<close>
  when it answers \<open>r\<close> and returns from the handler, and \<open>Inr None\<close> when it falls through to
  the final \<open>res.json({ received: true })\<close>.
\<close>

definition mark_paid ::
  "'n numops \<Rightarrow> 'n store \<Rightarrow> string \<Rightarrow> 'n additionalData \<Rightarrow> nat
     \<Rightarrow> (js_error + response option) \<times> 'n store" where
  "mark_paid N s orderId d now =
     (case updateOrderStatus N s orderId Paid d now of
        (Inl e, s') \<Rightarrow> (Inl e, s')
      | (Inr r, s') \<Rightarrow> (Inr None, s'))"

definition completed_by_metadata ::
  "'n numops \<Rightarrow> 'n store \<Rightarrow> 'n session \<Rightarrow> string \<Rightarrow> nat
     \<Rightarrow> (js_error + response option) \<times> 'n store" where
  "completed_by_metadata N s session orderId now =
     (case getOrderById s orderId of
        (existingOrder, s1) \<Rightarrow>
          if (case existingOrder of
                Some e \<Rightarrow> stripe_session_id e = Some (sess_id session) \<and> status e = Paid
              | None \<Rightarrow> False)
          then (Inr (Some (200, Received (Some ''Order already processed'') None)), s1)
          else if (case existingOrder of Some e \<Rightarrow> status e = Paid | None \<Rightarrow> False)
          then (Inr (Some (200, Received (Some ''Order already paid'')
                                 (Some ''Duplicate payment attempt detected''))),
                logger LWarn
                  ''Order is already paid. Duplicate payment attempt detected. Skipping update.'' s1)
          else mark_paid N s1 orderId (paid_data N session now) now)"

definition paid_data_by_session :: "'n numops \<Rightarrow> 'n session \<Rightarrow> nat \<Rightarrow> 'n additionalData" where
  "paid_data_by_session N session now =
     no_data\<lparr> paidAt := Some now,
              amountPaid := Some (hundredth N (sess_amount_total session)),
              currency_new := first_str (sess_currency session) (Some ''usd'') \<rparr>"

definition completed_by_session ::
  "'n numops \<Rightarrow> 'n store \<Rightarrow> 'n session \<Rightarrow> nat \<Rightarrow> (js_error + response option) \<times> 'n store" where
  "completed_by_session N s session now =
     (case findOrderByStripeSessionId
             (logger LWarn
                ''No orderId found in session metadata, trying to find by session ID'' s)
             (sess_id session) of
        (Some order, s1) \<Rightarrow>
          mark_paid N s1 (order_id order) (paid_data_by_session N session now) now
      | (None, s1) \<Rightarrow> (Inr None, logger LError ''Order not found for session'' s1))"

definition session_completed ::
  "'n numops \<Rightarrow> 'n store \<Rightarrow> 'n session \<Rightarrow> nat \<Rightarrow> (js_error + response option) \<times> 'n store" where
  "session_completed N s session now =
     (if str_truthy (sess_metadata_orderId session)
      then completed_by_metadata N s session (the (sess_metadata_orderId session)) now
      else completed_by_session N s session now)"

definition payment_failed ::
  "'n numops \<Rightarrow> 'n store \<Rightarrow> payment_intent \<Rightarrow> nat \<Rightarrow> (js_error + response option) \<times> 'n store" where
  "payment_failed N s failedPayment now =
     (case findOrderByStripeSessionId (logger LWarn ''PaymentIntent failed'' s)
             (pi_id failedPayment) of
        (Some order, s1) \<Rightarrow>
          (case updateOrderStatus N s1 (order_id order) Failed
                  (no_data\<lparr> error := first_str (pi_last_payment_error_message failedPayment)
                                        (Some ''Payment failed''),
                            failedAt := Some now \<rparr>) now of
             (Inl e, s2) \<Rightarrow> (Inl e, s2)
           | (Inr r, s2) \<Rightarrow> (Inr None, s2))
      | (None, s1) \<Rightarrow> (Inr None, s1))"

definition async_payment_failed ::
  "'n numops \<Rightarrow> 'n store \<Rightarrow> 'n session \<Rightarrow> nat \<Rightarrow> (js_error + response option) \<times> 'n store" where
  "async_payment_failed N s failedSession now =
     (let s0 = logger LWarn ''Checkout session payment failed'' s in
      if str_truthy (sess_metadata_orderId failedSession)
      then
        (case updateOrderStatus N s0 (the (sess_metadata_orderId failedSession)) Failed
                (no_data\<lparr> error := Some ''Payment failed'', failedAt := Some now \<rparr>) now of
           (Inl e, s1) \<Rightarrow> (Inl e, s1)
         | (Inr r, s1) \<Rightarrow> (Inr None, s1))
      else (Inr None, s0))"

text \<open>\<open>try { ... } catch (error) { logger.error(msg) }\<close> around a body, then the final answer.\<close>

definition caught :: "string \<Rightarrow> (js_error + response option) \<times> 'n store \<Rightarrow> response \<times> 'n store" where
  "caught msg res =
     (case res of
        (Inl e, s) \<Rightarrow> (ack, logger LError msg s)
      | (Inr (Some r), s) \<Rightarrow> (r, s)
      | (Inr None, s) \<Rightarrow> (ack, s))"

fun handle_event :: "'n numops \<Rightarrow> 'n store \<Rightarrow> 'n event \<Rightarrow> nat \<Rightarrow> response \<times> 'n store" where
  "handle_event N s (CheckoutSessionCompleted session) now =
     caught ''Error updating order status'' (session_completed N s session now)"
| "handle_event N s (PaymentIntentSucceeded paymentIntent) now = (ack, s)"
| "handle_event N s (PaymentIntentPaymentFailed failedPayment) now =
     caught ''Error updating failed order status'' (payment_failed N s failedPayment now)"
| "handle_event N s (CheckoutSessionAsyncPaymentFailed failedSession) now =
     caught ''Error updating failed order status'' (async_payment_failed N s failedSession now)"
| "handle_event N s (OtherEvent eventType) now = (ack, s)"

definition stripe_not_configured :: string where
  "stripe_not_configured =
     ''Stripe is not configured. Please set STRIPE_SECRET_KEY and STRIPE_WEBHOOK_SECRET environment variables.''"

text \<open>
  \<open>POST /api/payment/webhook\<close>: the raw body, the \<open>stripe-signature\<close> header and the time
  of the request.
\<close>

definition webhook ::
  "'n numops \<Rightarrow> 'n env \<Rightarrow> 'n store \<Rightarrow> string \<Rightarrow> string option \<Rightarrow> nat \<Rightarrow> response \<times> 'n store" where
  "webhook N env s rawBody sig now =
     (case stripe env of
        None \<Rightarrow>
          ((500, ErrorBody ''Stripe is not configured'' None),
           logger LError stripe_not_configured s)
      | Some client \<Rightarrow>
          if \<not> str_truthy (STRIPE_WEBHOOK_SECRET env)
          then ((500, ErrorBody ''Stripe is not configured'' None),
                logger LError stripe_not_configured s)
          else
            (case constructEvent client rawBody sig (the (STRIPE_WEBHOOK_SECRET env)) of
               Inl err \<Rightarrow>
                 ((400, Text (''Webhook Error: '' @ message err)),
                  logger LError ''Webhook signature verification failed'' s)
             | Inr event \<Rightarrow> handle_event N s event now))"

section \<open>The checkout route\<close>

record 'n checkout_body =
  b_items :: "'n json option"
  b_customerEmail :: "string option"
  b_customerName :: "string option"
  b_locale :: "string option"

text \<open>
  The guard of the validation loop,
  \<open>!item.id || !item.name || typeof item.price !== 'number' || !item.quantity\<close>, on an item
  that is not \<open>null\<close>.
\<close>

definition item_rejected :: "'n numops \<Rightarrow> 'n json \<Rightarrow> bool" where
  "item_rejected N item =
     (\<not> truthy N (field item ''id'') \<or> \<not> truthy N (field item ''name'')
      \<or> \<not> is_number (field item ''price'') \<or> \<not> truthy N (field item ''quantity''))"

text \<open>
  The loop \<open>for (const item of items)\<close>: \<open>Inr True\<close> when it answers 400, \<open>Inr False\<close> when
  it runs to its end, \<open>Inl\<close> when reading \<open>item.id\<close> throws.
\<close>

fun rejects_some :: "'n numops \<Rightarrow> 'n json list \<Rightarrow> js_error + bool" where
  "rejects_some N [] = Inr False"
| "rejects_some N (item # rest) =
     (case item of
        JNull \<Rightarrow> Inl (TypeError ''Cannot read properties of null (reading id)'')
      | _ \<Rightarrow> if item_rejected N item then Inr True else rejects_some N rest)"

definition totalAmount :: "'n numops \<Rightarrow> 'n json list \<Rightarrow> 'n" where
  "totalAmount N its =
     foldl (\<lambda>sum item.
              nadd N sum
                (nmul N (nmul N (to_number N (field item ''price''))
                                (to_number N (field item ''quantity'')))
                        (num_of N 100)))
       (num_of N 0) its"

text \<open>
  \<open>items.map(i => ({ id: i.id, quantity: i.quantity }))\<close>. The route compares two such
  arrays through \<open>JSON.stringify\<close>, which writes the two keys in this order and leaves out a
  key whose value is \<open>undefined\<close>; the model compares the lists of pairs.
\<close>

fun id_quantity :: "'n json list \<Rightarrow> js_error + ('n json option \<times> 'n json option) list" where
  "id_quantity [] = Inr []"
| "id_quantity (i # rest) =
     (case i of
        JNull \<Rightarrow> Inl (TypeError ''Cannot read properties of null (reading id)'')
      | _ \<Rightarrow>
          (case id_quantity rest of
             Inl e \<Rightarrow> Inl e
           | Inr ps \<Rightarrow> Inr ((field i ''id'', field i ''quantity'') # ps)))"

definition recent_pending :: "'n json list \<Rightarrow> nat \<Rightarrow> 'n order \<Rightarrow> js_error + bool" where
  "recent_pending its now ord =
     (if status ord = Pending \<and> length (items ord) = length its
      then
        (case id_quantity (items ord) of
           Inl e \<Rightarrow> Inl e
         | Inr stored \<Rightarrow>
             (case id_quantity its of
                Inl e \<Rightarrow> Inl e
              | Inr given \<Rightarrow>
                  Inr (stored = given \<and> int now - five_minutes < int (created_at ord))))
      else Inr False)"

text \<open>\<open>Array.prototype.find\<close> with a callback that may throw.\<close>

fun find_first :: "('a \<Rightarrow> js_error + bool) \<Rightarrow> 'a list \<Rightarrow> js_error + 'a option" where
  "find_first P [] = Inr None"
| "find_first P (x # xs) =
     (case P x of
        Inl e \<Rightarrow> Inl e
      | Inr True \<Rightarrow> Inr (Some x)
      | Inr False \<Rightarrow> find_first P xs)"

definition substring :: "nat \<Rightarrow> nat \<Rightarrow> string \<Rightarrow> string" where
  "substring i j cs = take (j - i) (drop i cs)"

definition session_metadata_of ::
  "'n numops \<Rightarrow> string \<Rightarrow> 'n json list \<Rightarrow> string option \<Rightarrow> string \<Rightarrow> session_metadata" where
  "session_metadata_of N orderId its name loc =
     (let itemIds = join '','' (map (\<lambda>item. to_string N (field item ''id'')) its);
          itemNames = join ''; '' (map (\<lambda>item. to_string N (field item ''name'')) its)
      in \<lparr> md_orderId = orderId,
           md_locale = (if loc = [] then ''en'' else loc),
           md_itemCount = decimal (length its),
           md_totalAmount =
             to_text N (Some (JNum
               (foldl (\<lambda>sum item.
                         nadd N sum (nmul N (to_number N (field item ''price''))
                                            (to_number N (field item ''quantity''))))
                  (num_of N 0) its))),
           md_customerName =
             (if str_truthy name then Some (substring 0 200 (the name)) else None),
           md_itemIds =
             (if length itemIds \<le> 200 then itemIds else substring 0 197 itemIds @ ''...''),
           md_firstItem =
             (if 0 < length itemNames then Some (substring 0 200 itemNames) else None) \<rparr>)"

text \<open>
  The part of the handler after the order has been created: ask the provider for a
  session. On success the session id is attached to the order by an update the handler
  does not wait for; the model runs that update to its end before the handler returns.
  On failure the order is marked failed and the error is thrown again.
\<close>

definition checkout_params ::
  "'n numops \<Rightarrow> 'n env \<Rightarrow> string \<Rightarrow> 'n json list \<Rightarrow> string option \<Rightarrow> string option
     \<Rightarrow> string \<Rightarrow> 'n create_params" where
  "checkout_params N env orderId its email name loc =
     (let baseUrl = (if str_truthy (FRONTEND_URL env) then the (FRONTEND_URL env)
                     else ''http://localhost:3000'')
      in \<lparr> cp_line_items = its,
           cp_success_url =
             baseUrl @ ''/'' @ loc @ ''/checkout/success?session_id={CHECKOUT_SESSION_ID}'',
           cp_cancel_url = baseUrl @ ''/'' @ loc @ ''/cart'',
           cp_customer_email = email,
           cp_metadata = session_metadata_of N orderId its name loc \<rparr>)"

definition idempotencyKey :: "string \<Rightarrow> nat \<Rightarrow> string" where
  "idempotencyKey orderId now = ''checkout_'' @ orderId @ ''_'' @ decimal now"

definition request_session ::
  "'n numops \<Rightarrow> 'n env \<Rightarrow> 'n stripe \<Rightarrow> 'n store \<Rightarrow> 'n order \<Rightarrow> 'n json list
     \<Rightarrow> string option \<Rightarrow> string option \<Rightarrow> string \<Rightarrow> nat
     \<Rightarrow> (js_error + response) \<times> 'n store" where
  "request_session N env client s ord its email name loc now =
     (case sessions_create client
             (checkout_params N env (order_id ord) its email name loc)
             (idempotencyKey (order_id ord) now) of
        Inr session \<Rightarrow>
          (case updateOrderStatus N s (order_id ord) Pending
                  (no_data\<lparr> stripeSessionId := Some (sess_id session),
                            stripePaymentIntentId :=
                              first_str (sess_payment_intent session) None \<rparr>) now of
             (Inl updateError, s1) \<Rightarrow>
               (Inr (200, Checkout (sess_id session) (order_id ord) (sess_url session) None),
                logger LWarn ''Failed to update order with Stripe session ID'' s1)
           | (Inr r, s1) \<Rightarrow>
               (Inr (200, Checkout (sess_id session) (order_id ord) (sess_url session) None),
                s1))
      | Inl stripeError \<Rightarrow>
          (case updateOrderStatus N
                  (logger LError ''Stripe error creating checkout session'' s)
                  (order_id ord) Failed
                  (no_data\<lparr> error := Some (message stripeError) \<rparr>) now of
             (Inl updateError, s1) \<Rightarrow>
               (Inl stripeError, logger LError ''Error updating order status to failed'' s1)
           | (Inr r, s1) \<Rightarrow> (Inl stripeError, s1)))"

text \<open>
  The part of the handler after the duplicate check: create the order, then ask for the
  session.
\<close>

definition new_checkout ::
  "'n numops \<Rightarrow> 'n env \<Rightarrow> 'n stripe \<Rightarrow> 'n store \<Rightarrow> 'n json list \<Rightarrow> 'n
     \<Rightarrow> string option \<Rightarrow> string option \<Rightarrow> string \<Rightarrow> nat \<Rightarrow> string
     \<Rightarrow> (js_error + response) \<times> 'n store" where
  "new_checkout N env client s its cents email name loc now random =
     (case createOrder N s
             \<lparr> od_items = its,
               od_customerEmail = email,
               od_customerName = name,
               od_locale = Some loc,
               od_totalAmount = ndiv N cents (num_of N 100),
               od_status = Some Pending \<rparr> now random of
        (Inl e, s1) \<Rightarrow>
          (Inr (500, ErrorBody ''Failed to create order'' (Some (message e))),
           logger LError ''Error creating order'' s1)
      | (Inr ord, s1) \<Rightarrow> request_session N env client s1 ord its email name loc now)"

text \<open>
  The duplicate check and what follows it. \<open>Inr (Some r)\<close> of the inner \<open>try\<close> is the answer
  with the existing session.
\<close>

definition existing_session ::
  "'n stripe \<Rightarrow> 'n store \<Rightarrow> 'n order option \<Rightarrow> response option \<times> 'n store" where
  "existing_session client s recentPendingOrder =
     (case recentPendingOrder of
        None \<Rightarrow> (None, s)
      | Some ord \<Rightarrow>
          if str_truthy (stripe_session_id ord)
          then
            (let s1 = logger LWarn ''Found existing pending order with session'' s in
             case sessions_retrieve client (the (stripe_session_id ord)) of
               Inl err \<Rightarrow> (None, s1)
             | Inr existingSession \<Rightarrow>
                 if sess_status existingSession = Some ''open''
                 then (Some (200, Checkout (sess_id existingSession) (order_id ord)
                                    (sess_url existingSession)
                                    (Some ''Using existing checkout session'')), s1)
                 else (None, s1))
          else (None, s))"

text \<open>\<open>customerEmail || ''\<close>, the address the stored orders are looked up by.\<close>

definition lookup_email :: "'n checkout_body \<Rightarrow> string" where
  "lookup_email b = (if str_truthy (b_customerEmail b) then the (b_customerEmail b) else [])"

definition checkout_body ::
  "'n numops \<Rightarrow> 'n env \<Rightarrow> 'n stripe \<Rightarrow> 'n store \<Rightarrow> 'n checkout_body \<Rightarrow> nat \<Rightarrow> string
     \<Rightarrow> (js_error + response) \<times> 'n store" where
  "checkout_body N env client s b now random =
     (case b_items b of
        Some (JArr its) \<Rightarrow>
          if its = []
          then (Inr (400, ErrorBody ''Items array is required and cannot be empty'' None), s)
          else
            (case rejects_some N its of
               Inl e \<Rightarrow> (Inl e, s)
             | Inr True \<Rightarrow>
                 (Inr (400, ErrorBody ''Each item must have id, name, price, and quantity'' None), s)
             | Inr False \<Rightarrow>
                 if nle N (totalAmount N its) (num_of N 0)
                 then (Inr (400, ErrorBody ''Total amount must be greater than 0'' None), s)
                 else
                   (case getOrdersByEmail s (lookup_email b) of
                      (existingOrders, s1) \<Rightarrow>
                      (case find_first (recent_pending its now) existingOrders of
                         Inl e \<Rightarrow> (Inl e, s1)
                       | Inr recentPendingOrder \<Rightarrow>
                           (case existing_session client s1 recentPendingOrder of
                              (Some r, s2) \<Rightarrow> (Inr r, s2)
                            | (None, s2) \<Rightarrow>
                                new_checkout N env client s2 its (totalAmount N its)
                                  (b_customerEmail b) (b_customerName b)
                                  (case b_locale b of Some l \<Rightarrow> l | None \<Rightarrow> ''en'')
                                  now random))))
      | _ \<Rightarrow> (Inr (400, ErrorBody ''Items array is required and cannot be empty'' None), s))"

text \<open>
  \<open>POST /api/payment/create-checkout-session\<close>: the parsed body, the time of the request and
  the random text of the order id. The outer \<open>catch\<close> answers 500.
\<close>

definition createCheckoutSession ::
  "'n numops \<Rightarrow> 'n env \<Rightarrow> 'n store \<Rightarrow> 'n checkout_body \<Rightarrow> nat \<Rightarrow> string
     \<Rightarrow> response \<times> 'n store" where
  "createCheckoutSession N env s b now random =
     (case stripe env of
        None \<Rightarrow>
          ((500, ErrorBody ''Stripe is not configured''
                   (Some ''Please set STRIPE_SECRET_KEY environment variable'')), s)
      | Some client \<Rightarrow>
          (case checkout_body N env client s b now random of
             (Inl e, s1) \<Rightarrow>
               ((500, ErrorBody ''Failed to create checkout session''
                        (Some (if message e = [] then ''Unknown error occurred'' else message e))),
                logger LError ''Error creating checkout session'' s1)
           | (Inr r, s1) \<Rightarrow> (r, s1)))"

section \<open>When an update changes the table\<close>

text \<open>
  \<open>transition_applies s i st sid\<close> gathers the conditions under which
  \<open>updateOrderStatus(i, st, { stripeSessionId: sid, ... })\<close> writes: the adapter is connected,
  the client answers, exactly one row has the id, the \<open>paid\<close>-to-\<open>paid\<close> guard does not fire
  and the unique index accepts the session id. \<open>transition\<close> is the table after the write.
  Both are used to state and prove the properties below; the routes do not call them.
\<close>

definition transition_applies :: "'n store \<Rightarrow> string \<Rightarrow> status \<Rightarrow> string option \<Rightarrow> bool" where
  "transition_applies s i st sid =
     (isConnected s \<and> client_error s = None \<and>
      (case filter (\<lambda>q. order_id q = i) (orders s) of
         [r] \<Rightarrow> (status r = Paid \<longrightarrow> st \<noteq> Paid)
                \<and> \<not> session_taken (orders s) i (keep_str sid (stripe_session_id r))
       | _ \<Rightarrow> False))"

definition transition ::
  "'n numops \<Rightarrow> string \<Rightarrow> status \<Rightarrow> 'n additionalData \<Rightarrow> nat \<Rightarrow> 'n order list \<Rightarrow> 'n order list" where
  "transition N i st d now rs = map (\<lambda>q. if order_id q = i then updateData N st d now q else q) rs"

text \<open>An answer of the webhook route that acknowledges the event.\<close>

definition is_ack :: "response \<Rightarrow> bool" where
  "is_ack r = (\<exists>m w. r = (200, Received m w))"

text \<open>A store that answers and holds no order, and one whose adapter is not connected.\<close>

definition empty_store :: "'n store" where
  "empty_store = \<lparr> isConnected = True, client_error = None, orders = [], logs = [] \<rparr>"


definition unreachable_store :: "rat order list \<Rightarrow> rat store" where
  "unreachable_store rs = \<lparr> isConnected = False, client_error = None, orders = rs, logs = [] \<rparr>"

section \<open>Sequences of requests\<close>






definition paid_in :: "'n store \<Rightarrow> string \<Rightarrow> bool" where
  "paid_in s i = list_ex (\<lambda>r. order_id r = i \<and> status r = Paid) (orders s)"

section \<open>A number type for the examples\<close>

text \<open>
  The examples below run the routes on exact rationals; a value that is not a number
  converts to 0 and prints as the empty text there.
\<close>

definition rat_ops :: "rat numops" where
  "rat_ops =
     \<lparr> num_of = of_int, nadd = (+), nmul = (*), ndiv = (/), nle = (\<le>),
       ntruthy = (\<lambda>x. x \<noteq> 0), coerce = (\<lambda>v. 0), to_text = (\<lambda>v. []) \<rparr>"

text \<open>A cart item, a stored order, a store, a session and a Stripe client for the examples.\<close>

definition course :: "string \<Rightarrow> rat \<Rightarrow> rat \<Rightarrow> rat json" where
  "course i p q =
     JObj [(''id'', JStr i), (''name'', JStr ''Course''), (''price'', JNum p), (''quantity'', JNum q)]"

definition example_order :: "string \<Rightarrow> status \<Rightarrow> string option \<Rightarrow> rat order" where
  "example_order i st sid =
     (inserted_row rat_ops
        \<lparr> new_id = i, new_status = Some st, new_items = [course ''c1'' (4999 / 100) 2],
          new_customerEmail = Some ''kid@example.org'', new_customerName = None,
          new_locale = None, new_totalAmount = 9998 / 100, new_processingFee = None,
          new_createdAt = None, new_updatedAt = None \<rparr> 1000)
     \<lparr> stripe_session_id := sid \<rparr>"

definition example_store :: "rat order list \<Rightarrow> rat store" where
  "example_store rs = \<lparr> isConnected = True, client_error = None, orders = rs, logs = [] \<rparr>"

definition example_session :: "string \<Rightarrow> string option \<Rightarrow> rat session" where
  "example_session i orderId =
     \<lparr> sess_id = i, sess_status = Some ''open'', sess_url = Some ''https://checkout.stripe.com/pay'',
       sess_customer_email = None, sess_details_email = None, sess_details_name = None,
       sess_details_phone = None, sess_metadata_orderId = orderId,
       sess_metadata_customerName = None, sess_payment_intent = Some ''pi_1'',
       sess_amount_total = Some (JNum 9998), sess_currency = Some ''usd'',
       sess_shipping_name = None, sess_shipping_line1 = None, sess_shipping_line2 = None,
       sess_shipping_city = None, sess_shipping_state = None, sess_shipping_postal_code = None,
       sess_shipping_country = None, sess_amount_tax = None \<rparr>"

definition example_stripe :: "rat event \<Rightarrow> rat stripe" where
  "example_stripe ev =
     \<lparr> constructEvent =
         (\<lambda>rawBody sig secret.
            if sig = Some ''v1=good'' then Inr ev
            else Inl (Error ''No signatures found matching the expected signature for payload'')),
       sessions_retrieve = (\<lambda>i. Inr (example_session i None)),
       sessions_create =
         (\<lambda>p k. Inr (example_session (''cs_'' @ md_orderId (cp_metadata p))
                     (Some (md_orderId (cp_metadata p))))) \<rparr>"

definition example_env :: "rat stripe \<Rightarrow> rat env" where
  "example_env client =
     \<lparr> stripe = Some client, STRIPE_WEBHOOK_SECRET = Some ''whsec_1'', FRONTEND_URL = None \<rparr>"

text \<open>A Stripe client whose calls all throw, and a request body with a customer email.\<close>

definition failing_stripe :: "rat stripe" where
  "failing_stripe =
     \<lparr> constructEvent = (\<lambda>rawBody sig secret. Inl (Error ''No signatures found'')),
       sessions_retrieve = (\<lambda>i. Inl (Error ''No such checkout.session'')),
       sessions_create = (\<lambda>p k. Inl (Error ''Request timed out'')) \<rparr>"

definition example_body :: "rat json list \<Rightarrow> rat checkout_body" where
  "example_body its =
     \<lparr> b_items = Some (JArr its), b_customerEmail = Some ''kid@example.org'',
       b_customerName = None, b_locale = None \<rparr>"


text \<open>A cart of two courses.\<close>

definition two_courses :: "rat json list" where
  "two_courses = [course ''c1'' (4999 / 100) 1, course ''c2'' 20 1]"

section \<open>Reading the store\<close>

lemma logger_simps [simp]:
  "orders (logger l m s) = orders s"
  "isConnected (logger l m s) = isConnected s"
  "client_error (logger l m s) = client_error s"
  "logs (logger l m s) = logs s @ [(l, m)]"
  by (simp_all add: logger_def)

lemma select_where_logger [simp]: "select_where (logger l m s) P = select_where s P"
  by (simp add: select_where_def split: option.splits)

lemma select_single_logger [simp]: "select_single (logger l m s) P = select_single s P"
  by (simp add: select_single_def)

lemma db_find_logger [simp]:
  "db_findOrderByStripeSessionId (logger l m s) x = db_findOrderByStripeSessionId s x"
  by (simp add: db_findOrderByStripeSessionId_def)

lemma db_get_logger [simp]: "db_getOrderById (logger l m s) x = db_getOrderById s x"
  by (simp add: db_getOrderById_def split: sum.splits)

lemma find_no_session:
  assumes "\<forall>r\<in>set (orders s). stripe_session_id r \<noteq> Some x"
  shows "fst (findOrderByStripeSessionId s x) = None"
proof -
  have "filter (\<lambda>r. stripe_session_id r = Some x) (orders s) = []"
    using assms by (simp add: filter_empty_conv)
  then show ?thesis
    by (simp add: findOrderByStripeSessionId_def db_findOrderByStripeSessionId_def
        select_single_def select_where_def single_row_def split: option.splits)
qed

lemma find_orders [simp]: "orders (snd (findOrderByStripeSessionId s x)) = orders s"
  by (simp add: findOrderByStripeSessionId_def split: sum.splits)

lemmas example_defs = course_def example_order_def example_store_def example_session_def
  example_stripe_def example_env_def rat_ops_def inserted_row_def

lemmas route_defs = webhook_def caught_def session_completed_def completed_by_metadata_def
  completed_by_session_def mark_paid_def payment_failed_def async_payment_failed_def
  updateOrderStatus_def db_updateOrderStatus_def db_getOrderById_def
  db_findOrderByStripeSessionId_def getOrderById_def findOrderByStripeSessionId_def
  select_single_def select_where_def single_row_def update_single_def session_taken_def
  updateData_def keep_str_def keep_def_def no_data_def paid_data_def paid_data_by_session_def
  first_str_def ack_def
  hundredth_def logger_def

section \<open>The effect of an update\<close>

lemma updateData_simps [simp]:
  "order_id (updateData N st d now r) = order_id r"
  "status (updateData N st d now r) = st"
  "stripe_session_id (updateData N st d now r) = keep_str (stripeSessionId d) (stripe_session_id r)"
  "items (updateData N st d now r) = items r"
  "created_at (updateData N st d now r) = created_at r"
  "customer_email (updateData N st d now r) = keep_str (customerEmail d) (customer_email r)"
  "error_message (updateData N st d now r) = keep_str (error d) (error_message r)"
  by (simp_all add: updateData_def)

lemma single_filter_map:
  assumes "filter (\<lambda>q. order_id q = i) rs = [r]"
  shows "map (\<lambda>q. if order_id q = i then f r else q) rs
         = map (\<lambda>q. if order_id q = i then f q else q) rs"
proof (rule map_cong [OF refl])
  fix q assume "q \<in> set rs"
  show "(if order_id q = i then f r else q) = (if order_id q = i then f q else q)"
  proof (cases "order_id q = i")
    case True
    with \<open>q \<in> set rs\<close> have "q \<in> set (filter (\<lambda>q. order_id q = i) rs)" by simp
    then have "q = r" using assms by simp
    then show ?thesis by simp
  next
    case False then show ?thesis by simp
  qed
qed

lemma db_update_flags:
  "isConnected (snd (db_updateOrderStatus N s i st d now)) = isConnected s
   \<and> client_error (snd (db_updateOrderStatus N s i st d now)) = client_error s"
  by (auto simp: db_updateOrderStatus_def update_single_def split: sum.splits option.splits prod.splits if_splits)

lemma db_update_orders:
  "orders (snd (db_updateOrderStatus N s i st d now))
   = (if transition_applies s i st (stripeSessionId d) then transition N i st d now (orders s)
      else orders s)"
proof (cases "isConnected s \<and> client_error s = None")
  case False
  then show ?thesis
    by (auto simp: db_updateOrderStatus_def update_single_def transition_applies_def
        select_single_def select_where_def
        split: sum.splits option.splits prod.splits if_splits)
next
  case ok: True
  show ?thesis
  proof (cases "\<exists>r. filter (\<lambda>q. order_id q = i) (orders s) = [r]")
    case False
    then have sel: "select_single s (\<lambda>q. order_id q = i) = Inl ''JSON object requested, multiple (or no) rows returned''"
      using ok by (auto simp: select_single_def select_where_def single_row_def split: list.splits)
    have na: "\<not> transition_applies s i st (stripeSessionId d)"
      using False by (auto simp: transition_applies_def split: list.splits)
    show ?thesis using ok sel na
      by (auto simp: db_updateOrderStatus_def update_single_def db_getOrderById_def
          split: sum.splits option.splits prod.splits if_splits)
  next
    case True
    then obtain r where r: "filter (\<lambda>q. order_id q = i) (orders s) = [r]" by blast
    have sel: "select_single s (\<lambda>q. order_id q = i) = Inr r"
      using ok r by (simp add: select_single_def select_where_def single_row_def)
    have get: "db_getOrderById s i = Inr (Some r)"
      using ok sel by (simp add: db_getOrderById_def)
    have m: "map (\<lambda>q. if order_id q = i then updateData N st d now r else q) (orders s)
         = transition N i st d now (orders s)"
      unfolding transition_def by (rule single_filter_map [OF r])
    show ?thesis using ok sel get r m
      by (auto simp: db_updateOrderStatus_def update_single_def transition_applies_def)
  qed
qed

lemma update_flags [simp]:
  "isConnected (snd (updateOrderStatus N s i st d now)) = isConnected s"
  "client_error (snd (updateOrderStatus N s i st d now)) = client_error s"
  using db_update_flags [of N s i st d now]
  by (auto simp: updateOrderStatus_def split: prod.splits sum.splits)

lemma update_orders:
  "orders (snd (updateOrderStatus N s i st d now))
   = (if transition_applies s i st (stripeSessionId d) then transition N i st d now (orders s)
      else orders s)"
  using db_update_orders [of N s i st d now]
  by (auto simp: updateOrderStatus_def split: prod.splits sum.splits)

section \<open>Answers of the webhook route\<close>

lemma getOrderById_Some:
  assumes "fst (getOrderById s i) = Some e"
  shows "getOrderById s i = (Some e, s)"
  using assms by (auto simp: getOrderById_def split: sum.splits)

lemma caught_orders [simp]: "orders (snd (caught msg res)) = orders (snd res)"
  by (cases res) (auto simp: caught_def split: sum.splits option.splits)

lemma caught_flags [simp]:
  "isConnected (snd (caught msg res)) = isConnected (snd res)"
  "client_error (snd (caught msg res)) = client_error (snd res)"
  by (cases res; auto simp: caught_def split: sum.splits option.splits)+

lemma caught_ack:
  assumes "\<And>r. fst res = Inr (Some r) \<Longrightarrow> is_ack r"
  shows "is_ack (fst (caught msg res))"
  using assms by (cases res) (auto simp: caught_def ack_def is_ack_def split: sum.splits option.splits)

lemma mark_paid_no_answer: "fst (mark_paid N s i d now) = Inr (Some r) \<Longrightarrow> False"
  by (auto simp: mark_paid_def split: prod.splits sum.splits)

lemma session_completed_ack:
  assumes "fst (session_completed N s session now) = Inr (Some r)"
  shows "is_ack r"
  using assms
  by (auto simp: session_completed_def completed_by_metadata_def completed_by_session_def
      is_ack_def split: prod.splits option.splits if_splits dest: mark_paid_no_answer)

lemma payment_failed_no_answer: "fst (payment_failed N s p now) = Inr (Some r) \<Longrightarrow> False"
  by (auto simp: payment_failed_def split: prod.splits sum.splits option.splits)

lemma async_payment_failed_no_answer:
  "fst (async_payment_failed N s p now) = Inr (Some r) \<Longrightarrow> False"
  by (auto simp: async_payment_failed_def Let_def split: prod.splits sum.splits option.splits if_splits)

lemma handle_event_ack: "is_ack (fst (handle_event N s event now))"
proof (cases event)
  case (CheckoutSessionCompleted x)
  have "is_ack (fst (caught ''Error updating order status'' (session_completed N s x now)))"
    by (rule caught_ack) (rule session_completed_ack)
  then show ?thesis using CheckoutSessionCompleted by simp
next
  case (PaymentIntentPaymentFailed x)
  then show ?thesis by (auto intro!: caught_ack dest: payment_failed_no_answer)
next
  case (CheckoutSessionAsyncPaymentFailed x)
  then show ?thesis by (auto intro!: caught_ack dest: async_payment_failed_no_answer)
qed (simp_all add: is_ack_def ack_def)

section \<open>The acknowledgment policy\<close>

text \<open>
  C4. With Stripe configured, a request whose signature does not verify is answered 400
  and only adds a log entry: no order changes. A request whose signature verifies is
  answered 200 with \<open>{ received: true }\<close>, whatever the event and whatever the state of the
  store (an order that is missing, an event kind the handler does not know, an update
  that throws); what goes wrong while the event is handled reaches the log only.
\<close>

theorem webhook_acknowledgment:
  assumes "stripe env = Some client"
    and "str_truthy (STRIPE_WEBHOOK_SECRET env)"
  shows "(\<forall>err. constructEvent client rawBody sig (the (STRIPE_WEBHOOK_SECRET env)) = Inl err \<longrightarrow>
            webhook N env s rawBody sig now =
              ((400, Text (''Webhook Error: '' @ message err)),
               logger LError ''Webhook signature verification failed'' s))
       \<and> (\<forall>event. constructEvent client rawBody sig (the (STRIPE_WEBHOOK_SECRET env)) = Inr event \<longrightarrow>
            (\<exists>m w. fst (webhook N env s rawBody sig now) = (200, Received m w)))"
proof (intro conjI allI impI)
  fix err
  assume "constructEvent client rawBody sig (the (STRIPE_WEBHOOK_SECRET env)) = Inl err"
  then show "webhook N env s rawBody sig now =
      ((400, Text (''Webhook Error: '' @ message err)),
       logger LError ''Webhook signature verification failed'' s)"
    using assms by (simp add: webhook_def)
next
  fix event
  assume "constructEvent client rawBody sig (the (STRIPE_WEBHOOK_SECRET env)) = Inr event"
  then have "webhook N env s rawBody sig now = handle_event N s event now"
    using assms by (simp add: webhook_def)
  then show "\<exists>m w. fst (webhook N env s rawBody sig now) = (200, Received m w)"
    using handle_event_ack [of N s event now] by (simp add: is_ack_def)
qed


text \<open>
  A bad signature is answered 400. With a good one, an event for the unknown order
  \<open>ORD-9\<close> is acknowledged, and the failed update leaves three error entries in the log.
\<close>

theorem webhook_acknowledgment_witness:
  "webhook rat_ops
     (example_env (example_stripe (CheckoutSessionCompleted (example_session ''cs_A'' (Some ''ORD-9'')))))
     (example_store [example_order ''ORD-1'' Pending (Some ''cs_A'')]) ''{}'' (Some ''v1=bad'') 5000
   = ((400, Text ''Webhook Error: No signatures found matching the expected signature for payload''),
      logger LError ''Webhook signature verification failed''
        (example_store [example_order ''ORD-1'' Pending (Some ''cs_A'')]))
   \<and> (\<exists>m w. fst (webhook rat_ops
        (example_env (example_stripe (CheckoutSessionCompleted (example_session ''cs_A'' (Some ''ORD-9'')))))
        (example_store [example_order ''ORD-1'' Pending (Some ''cs_A'')]) ''{}'' (Some ''v1=good'') 5000)
       = (200, Received m w))
   \<and> logs (snd (webhook rat_ops
        (example_env (example_stripe (CheckoutSessionCompleted (example_session ''cs_A'' (Some ''ORD-9'')))))
        (example_store [example_order ''ORD-1'' Pending (Some ''cs_A'')]) ''{}'' (Some ''v1=good'') 5000))
       = [(LError, ''Supabase update error for order''), (LError, ''Error updating order''),
          (LError, ''Error updating order status'')]"
proof -
  let ?session = "example_session ''cs_A'' (Some ''ORD-9'')"
  let ?client = "example_stripe (CheckoutSessionCompleted ?session)"
  let ?s = "example_store [example_order ''ORD-1'' Pending (Some ''cs_A'')]"
  have 1: "stripe (example_env ?client) = Some ?client"
    and 2: "str_truthy (STRIPE_WEBHOOK_SECRET (example_env ?client))"
    by (simp_all add: example_env_def)
  have bad: "constructEvent ?client ''{}'' (Some ''v1=bad'')
              (the (STRIPE_WEBHOOK_SECRET (example_env ?client)))
            = Inl (Error ''No signatures found matching the expected signature for payload'')"
    and good: "constructEvent ?client ''{}'' (Some ''v1=good'')
              (the (STRIPE_WEBHOOK_SECRET (example_env ?client)))
            = Inr (CheckoutSessionCompleted ?session)"
    by (simp_all add: example_env_def example_stripe_def)
  have a: "webhook rat_ops (example_env ?client) ?s ''{}'' (Some ''v1=bad'') 5000
      = ((400, Text (''Webhook Error: ''
            @ message (Error ''No signatures found matching the expected signature for payload''))),
         logger LError ''Webhook signature verification failed'' ?s)"
    using webhook_acknowledgment [OF 1 2, of "''{}''" "Some ''v1=bad''" rat_ops ?s 5000] bad
    by blast
  have b: "\<exists>m w. fst (webhook rat_ops (example_env ?client) ?s ''{}'' (Some ''v1=good'') 5000)
      = (200, Received m w)"
    using webhook_acknowledgment [OF 1 2, of "''{}''" "Some ''v1=good''" rat_ops ?s 5000] good
    by blast
  have c: "logs (snd (webhook rat_ops (example_env ?client) ?s ''{}'' (Some ''v1=good'') 5000))
       = [(LError, ''Supabase update error for order''), (LError, ''Error updating order''),
          (LError, ''Error updating order status'')]"
    by (simp add: example_defs route_defs)
  show ?thesis using a b c by simp
qed

section \<open>A second payment for a paid order\<close>

text \<open>
  C5. A verified \<open>checkout.session.completed\<close> event whose \<open>metadata.orderId\<close> resolves to an
  order that is paid under another session id is acknowledged with a warning; the store
  is the one before the request with the duplicate-payment warning added to its log, so
  no field of any order changes.
\<close>

theorem duplicate_payment_frame:
  assumes "stripe env = Some client"
    and "str_truthy (STRIPE_WEBHOOK_SECRET env)"
    and "constructEvent client rawBody sig (the (STRIPE_WEBHOOK_SECRET env))
           = Inr (CheckoutSessionCompleted session)"
    and "sess_metadata_orderId session = Some orderId"
    and "orderId \<noteq> []"
    and "fst (getOrderById s orderId) = Some e"
    and "status e = Paid"
    and "stripe_session_id e \<noteq> Some (sess_id session)"
  shows "webhook N env s rawBody sig now =
           ((200, Received (Some ''Order already paid'')
                    (Some ''Duplicate payment attempt detected'')),
            logger LWarn
              ''Order is already paid. Duplicate payment attempt detected. Skipping update.'' s)"
proof -
  have get: "getOrderById s orderId = (Some e, s)"
    using assms(6) by (rule getOrderById_Some)
  have "session_completed N s session now =
          (Inr (Some (200, Received (Some ''Order already paid'')
                  (Some ''Duplicate payment attempt detected''))),
           logger LWarn
             ''Order is already paid. Duplicate payment attempt detected. Skipping update.'' s)"
    using assms(4,5,7,8) get by (simp add: session_completed_def completed_by_metadata_def)
  then show ?thesis
    using assms(1-3) by (simp add: webhook_def caught_def)
qed

text \<open>The order \<open>ORD-1\<close> is paid under \<open>cs_A\<close>; the event carries \<open>cs_B\<close>.\<close>

theorem duplicate_payment_frame_witness:
  "webhook rat_ops
     (example_env (example_stripe (CheckoutSessionCompleted (example_session ''cs_B'' (Some ''ORD-1'')))))
     (example_store [example_order ''ORD-1'' Paid (Some ''cs_A'')]) ''{}'' (Some ''v1=good'') 5000
   = ((200, Received (Some ''Order already paid'') (Some ''Duplicate payment attempt detected'')),
      logger LWarn ''Order is already paid. Duplicate payment attempt detected. Skipping update.''
        (example_store [example_order ''ORD-1'' Paid (Some ''cs_A'')]))"
proof -
  let ?session = "example_session ''cs_B'' (Some ''ORD-1'')"
  let ?client = "example_stripe (CheckoutSessionCompleted ?session)"
  let ?s = "example_store [example_order ''ORD-1'' Paid (Some ''cs_A'')]"
  have 1: "stripe (example_env ?client) = Some ?client"
    and 2: "str_truthy (STRIPE_WEBHOOK_SECRET (example_env ?client))"
    and 3: "constructEvent ?client ''{}'' (Some ''v1=good'')
              (the (STRIPE_WEBHOOK_SECRET (example_env ?client)))
            = Inr (CheckoutSessionCompleted ?session)"
    by (simp_all add: example_env_def example_stripe_def)
  have 4: "sess_metadata_orderId ?session = Some ''ORD-1''"
    by (simp add: example_session_def)
  have 6: "fst (getOrderById ?s ''ORD-1'') = Some (example_order ''ORD-1'' Paid (Some ''cs_A''))"
    by (simp add: getOrderById_def db_getOrderById_def select_single_def select_where_def
        single_row_def example_store_def example_order_def inserted_row_def)
  have 7: "status (example_order ''ORD-1'' Paid (Some ''cs_A'')) = Paid"
    and 8: "stripe_session_id (example_order ''ORD-1'' Paid (Some ''cs_A'')) \<noteq> Some (sess_id ?session)"
    by (simp_all add: example_order_def inserted_row_def example_session_def)
  show ?thesis
    by (rule duplicate_payment_frame [OF 1 2 3 4 _ 6 7 8]) simp
qed

section \<open>Delivering a completed checkout twice\<close>

lemma filter_id_transition:
  "filter (\<lambda>q. order_id q = j) (transition N i st d now rs)
   = map (\<lambda>q. if order_id q = i then updateData N st d now q else q)
       (filter (\<lambda>q. order_id q = j) rs)"
  by (induction rs) (auto simp: transition_def)

lemma filter_session_transition:
  assumes "stripeSessionId d = None"
  shows "filter (\<lambda>q. stripe_session_id q = Some x) (transition N i st d now rs)
   = map (\<lambda>q. if order_id q = i then updateData N st d now q else q)
       (filter (\<lambda>q. stripe_session_id q = Some x) rs)"
  using assms by (induction rs) (auto simp: transition_def keep_str_def)

lemma transition_applies_cong:
  assumes "isConnected s' = isConnected s" "client_error s' = client_error s"
    "orders s' = orders s"
  shows "transition_applies s' i st sid = transition_applies s i st sid"
  using assms by (simp add: transition_applies_def split: list.splits)

lemma paid_after_transition:
  assumes "transition_applies s i st sid"
    and "orders s' = transition N i Paid d now (orders s)"
  shows "\<not> transition_applies s' i Paid sid'"
proof -
  from assms(1) obtain r where r: "filter (\<lambda>q. order_id q = i) (orders s) = [r]"
    by (auto simp: transition_applies_def split: list.splits)
  have "r \<in> set (filter (\<lambda>q. order_id q = i) (orders s))" using r by simp
  then have "order_id r = i" by simp
  then have "filter (\<lambda>q. order_id q = i) (orders s') = [updateData N Paid d now r]"
    using r assms(2) by (simp add: filter_id_transition)
  then show ?thesis by (simp add: transition_applies_def)
qed

lemma getOrderById_snd [simp]:
  "orders (snd (getOrderById s i)) = orders s"
  "isConnected (snd (getOrderById s i)) = isConnected s"
  "client_error (snd (getOrderById s i)) = client_error s"
  by (simp_all add: getOrderById_def split: sum.splits)

lemma find_snd [simp]:
  "isConnected (snd (findOrderByStripeSessionId s x)) = isConnected s"
  "client_error (snd (findOrderByStripeSessionId s x)) = client_error s"
  by (simp_all add: findOrderByStripeSessionId_def split: sum.splits)

lemma applies_get:
  assumes "transition_applies s i Paid sid"
  shows "\<exists>r. fst (getOrderById s i) = Some r \<and> status r \<noteq> Paid"
  using assms
  by (auto simp: transition_applies_def getOrderById_def db_getOrderById_def select_single_def
      select_where_def single_row_def split: list.splits)

lemma mark_paid_flags [simp]:
  "isConnected (snd (mark_paid N s i d now)) = isConnected s"
  "client_error (snd (mark_paid N s i d now)) = client_error s"
proof -
  obtain r s' where u: "updateOrderStatus N s i Paid d now = (r, s')"
    by (cases "updateOrderStatus N s i Paid d now")
  have "isConnected s' = isConnected s" "client_error s' = client_error s"
    using update_flags [of N s i Paid d now] u by simp_all
  then show "isConnected (snd (mark_paid N s i d now)) = isConnected s"
    "client_error (snd (mark_paid N s i d now)) = client_error s"
    by (simp_all add: mark_paid_def u split: sum.splits)
qed

lemma mark_paid_orders:
  "orders (snd (mark_paid N s i d now))
   = (if transition_applies s i Paid (stripeSessionId d) then transition N i Paid d now (orders s)
      else orders s)"
proof -
  obtain r s' where u: "updateOrderStatus N s i Paid d now = (r, s')"
    by (cases "updateOrderStatus N s i Paid d now")
  have "orders (snd (mark_paid N s i d now)) = orders s'"
    by (simp add: mark_paid_def u split: sum.splits)
  then show ?thesis using update_orders [of N s i Paid d now] u by simp
qed

lemma paid_data_session [simp]: "stripeSessionId (paid_data N session now) = Some (sess_id session)"
  by (simp add: paid_data_def)

lemma by_metadata_flags [simp]:
  "isConnected (snd (completed_by_metadata N s session i now)) = isConnected s"
  "client_error (snd (completed_by_metadata N s session i now)) = client_error s"
proof -
  obtain ex s0 where g: "getOrderById s i = (ex, s0)" by (cases "getOrderById s i")
  have "isConnected s0 = isConnected s" "client_error s0 = client_error s"
    using getOrderById_snd [of s i] g by simp_all
  then show "isConnected (snd (completed_by_metadata N s session i now)) = isConnected s"
    "client_error (snd (completed_by_metadata N s session i now)) = client_error s"
    by (simp_all add: completed_by_metadata_def g)
qed

lemma by_metadata_orders:
  "orders (snd (completed_by_metadata N s session i now))
   = (if transition_applies s i Paid (Some (sess_id session))
      then transition N i Paid (paid_data N session now) now (orders s)
      else orders s)"
proof -
  obtain ex s0 where g: "getOrderById s i = (ex, s0)" by (cases "getOrderById s i")
  have s0: "isConnected s0 = isConnected s" "client_error s0 = client_error s"
    "orders s0 = orders s"
    using getOrderById_snd [of s i] g by simp_all
  have ap: "transition_applies s0 i Paid (Some (sess_id session))
            = transition_applies s i Paid (Some (sess_id session))"
    using s0 by (rule transition_applies_cong)
  show ?thesis
  proof (cases "case ex of Some e \<Rightarrow> status e = Paid | None \<Rightarrow> False")
    case True
    then obtain e where e: "ex = Some e" "status e = Paid" by (auto split: option.splits)
    have "\<not> transition_applies s i Paid (Some (sess_id session))"
    proof
      assume "transition_applies s i Paid (Some (sess_id session))"
      then obtain r where "fst (getOrderById s i) = Some r" "status r \<noteq> Paid"
        using applies_get by blast
      then show False using g e by simp
    qed
    then show ?thesis using e s0 by (simp add: completed_by_metadata_def g)
  next
    case False
    then have "completed_by_metadata N s session i now
               = mark_paid N s0 i (paid_data N session now) now"
      by (auto simp: completed_by_metadata_def g split: option.splits)
    then show ?thesis using ap s0 by (simp add: mark_paid_orders)
  qed
qed

lemma by_metadata_idempotent:
  "orders (snd (completed_by_metadata N
             (snd (completed_by_metadata N s session i now)) session i now'))
   = orders (snd (completed_by_metadata N s session i now))"
proof -
  let ?s1 = "snd (completed_by_metadata N s session i now)"
  have "\<not> transition_applies ?s1 i Paid (Some (sess_id session))"
  proof (cases "transition_applies s i Paid (Some (sess_id session))")
    case True
    then have "orders ?s1 = transition N i Paid (paid_data N session now) now (orders s)"
      by (simp add: by_metadata_orders)
    with True show ?thesis by (rule paid_after_transition)
  next
    case False
    then have "orders ?s1 = orders s" by (simp add: by_metadata_orders)
    then have "transition_applies ?s1 i Paid (Some (sess_id session))
               = transition_applies s i Paid (Some (sess_id session))"
      by (intro transition_applies_cong) simp_all
    with False show ?thesis by simp
  qed
  then show ?thesis by (simp add: by_metadata_orders [of N ?s1])
qed

lemma found_formula:
  "fst (findOrderByStripeSessionId s x)
   = (if isConnected s \<and> client_error s = None
      then (case filter (\<lambda>r. stripe_session_id r = Some x) (orders s) of
              [r] \<Rightarrow> Some r | _ \<Rightarrow> None)
      else None)"
  by (auto simp: findOrderByStripeSessionId_def db_findOrderByStripeSessionId_def
      select_single_def select_where_def single_row_def split: list.splits option.splits)

lemma paid_data_by_session_session [simp]: "stripeSessionId (paid_data_by_session N session now) = None"
  by (simp add: paid_data_by_session_def no_data_def)

lemma by_session_flags [simp]:
  "isConnected (snd (completed_by_session N s session now)) = isConnected s"
  "client_error (snd (completed_by_session N s session now)) = client_error s"
proof -
  let ?s0 = "logger LWarn
    ''No orderId found in session metadata, trying to find by session ID'' s"
  obtain f s1 where g: "findOrderByStripeSessionId ?s0 (sess_id session) = (f, s1)"
    by (cases "findOrderByStripeSessionId ?s0 (sess_id session)")
  have "isConnected s1 = isConnected s" "client_error s1 = client_error s"
    using find_snd [of ?s0 "sess_id session"] g by simp_all
  then show "isConnected (snd (completed_by_session N s session now)) = isConnected s"
    "client_error (snd (completed_by_session N s session now)) = client_error s"
    by (simp_all add: completed_by_session_def g split: option.splits)
qed

lemma by_session_orders:
  "orders (snd (completed_by_session N s session now))
   = (case fst (findOrderByStripeSessionId s (sess_id session)) of
        Some ord \<Rightarrow>
          if transition_applies s (order_id ord) Paid None
          then transition N (order_id ord) Paid (paid_data_by_session N session now) now (orders s)
          else orders s
      | None \<Rightarrow> orders s)"
proof -
  let ?s0 = "logger LWarn
    ''No orderId found in session metadata, trying to find by session ID'' s"
  obtain f s1 where g: "findOrderByStripeSessionId ?s0 (sess_id session) = (f, s1)"
    by (cases "findOrderByStripeSessionId ?s0 (sess_id session)")
  have s1: "isConnected s1 = isConnected s" "client_error s1 = client_error s"
    "orders s1 = orders s"
    using find_snd [of ?s0 "sess_id session"] find_orders [of ?s0 "sess_id session"] g
    by simp_all
  have f: "f = fst (findOrderByStripeSessionId s (sess_id session))"
    using g found_formula [of ?s0 "sess_id session"] found_formula [of s "sess_id session"]
    by simp
  have ap: "\<And>i. transition_applies s1 i Paid None = transition_applies s i Paid None"
    using s1 by (rule transition_applies_cong)
  show ?thesis
    using s1 ap by (simp add: completed_by_session_def g f [symmetric] mark_paid_orders split: option.splits)
qed

lemma by_session_idempotent:
  "orders (snd (completed_by_session N (snd (completed_by_session N s session now)) session now'))
   = orders (snd (completed_by_session N s session now))"
proof -
  let ?x = "sess_id session"
  let ?s1 = "snd (completed_by_session N s session now)"
  let ?d = "paid_data_by_session N session now"
  have flags: "isConnected ?s1 = isConnected s" "client_error ?s1 = client_error s"
    by simp_all
  show ?thesis
  proof (cases "fst (findOrderByStripeSessionId s ?x)")
    case None
    then have o: "orders ?s1 = orders s" by (simp add: by_session_orders)
    have "fst (findOrderByStripeSessionId ?s1 ?x) = None"
      using None flags o by (auto simp: found_formula split: if_splits)
    then show ?thesis by (simp add: by_session_orders [of N ?s1])
  next
    case (Some ord)
    show ?thesis
    proof (cases "transition_applies s (order_id ord) Paid None")
      case False
      then have o: "orders ?s1 = orders s" using Some by (simp add: by_session_orders)
      have f: "fst (findOrderByStripeSessionId ?s1 ?x) = Some ord"
        using Some flags o by (auto simp: found_formula split: if_splits)
      have "transition_applies ?s1 (order_id ord) Paid None
            = transition_applies s (order_id ord) Paid None"
        using flags o by (rule transition_applies_cong)
      then show ?thesis using False f by (simp add: by_session_orders [of N ?s1])
    next
      case True
      then have o: "orders ?s1 = transition N (order_id ord) Paid ?d now (orders s)"
        using Some by (simp add: by_session_orders)
      have ok: "isConnected s \<and> client_error s = None"
        using True by (simp add: transition_applies_def)
      have fl: "filter (\<lambda>r. stripe_session_id r = Some ?x) (orders s) = [ord]"
        using Some ok by (auto simp: found_formula split: list.splits)
      have "filter (\<lambda>r. stripe_session_id r = Some ?x) (orders ?s1)
            = [updateData N Paid ?d now ord]"
        using fl o by (simp add: filter_session_transition)
      then have f: "fst (findOrderByStripeSessionId ?s1 ?x) = Some (updateData N Paid ?d now ord)"
        using ok flags by (simp add: found_formula)
      have "\<not> transition_applies ?s1 (order_id ord) Paid None"
        using True o by (rule paid_after_transition)
      then show ?thesis using f by (simp add: by_session_orders [of N ?s1])
    qed
  qed
qed

lemma session_completed_idempotent:
  "orders (snd (session_completed N (snd (session_completed N s session now)) session now'))
   = orders (snd (session_completed N s session now))"
  by (simp add: session_completed_def by_metadata_idempotent by_session_idempotent)

lemma session_completed_cong:
  assumes "isConnected s' = isConnected s" "client_error s' = client_error s"
    "orders s' = orders s"
  shows "orders (snd (session_completed N s' session now))
         = orders (snd (session_completed N s session now))"
proof -
  have f: "fst (findOrderByStripeSessionId s' (sess_id session))
           = fst (findOrderByStripeSessionId s (sess_id session))"
    using assms by (simp add: found_formula)
  have ap: "\<And>i sid. transition_applies s' i Paid sid = transition_applies s i Paid sid"
    using assms by (rule transition_applies_cong)
  show ?thesis
    by (simp add: session_completed_def by_metadata_orders by_session_orders f ap assms(3)
        split: option.splits)
qed

lemma session_completed_flags [simp]:
  "isConnected (snd (session_completed N s session now)) = isConnected s"
  "client_error (snd (session_completed N s session now)) = client_error s"
  by (simp_all add: session_completed_def)

text \<open>
  C2. When a verified \<open>checkout.session.completed\<close> event is delivered, and the same event is
  delivered again to the store the first delivery left (at any later time), the second
  delivery leaves the table of orders as the first one left it, and both deliveries are
  acknowledged with 200. This holds whether the order is looked up through
  \<open>metadata.orderId\<close> or through the session id, and whatever the state of the store.
\<close>

theorem completed_idempotent:
  assumes "stripe env = Some client"
    and "str_truthy (STRIPE_WEBHOOK_SECRET env)"
    and "constructEvent client rawBody sig (the (STRIPE_WEBHOOK_SECRET env))
           = Inr (CheckoutSessionCompleted session)"
  shows "orders (snd (webhook N env (snd (webhook N env s rawBody sig now)) rawBody sig now'))
           = orders (snd (webhook N env s rawBody sig now))
         \<and> (\<exists>m w. fst (webhook N env s rawBody sig now) = (200, Received m w))
         \<and> (\<exists>m w. fst (webhook N env (snd (webhook N env s rawBody sig now)) rawBody sig now')
                    = (200, Received m w))"
proof -
  have w: "\<And>t n. webhook N env t rawBody sig n
             = caught ''Error updating order status'' (session_completed N t session n)"
    using assms by (simp add: webhook_def)
  have "\<And>t n. is_ack (fst (webhook N env t rawBody sig n))"
    unfolding w by (rule caught_ack) (rule session_completed_ack)
  then have acks: "\<And>t n. \<exists>m w. fst (webhook N env t rawBody sig n) = (200, Received m w)"
    by (simp add: is_ack_def)
  let ?s1 = "snd (session_completed N s session now)"
  let ?c1 = "snd (caught ''Error updating order status'' (session_completed N s session now))"
  have "orders (snd (session_completed N ?c1 session now'))
        = orders (snd (session_completed N ?s1 session now'))"
    by (rule session_completed_cong) simp_all
  also have "\<dots> = orders ?s1" by (rule session_completed_idempotent)
  finally have "orders (snd (webhook N env (snd (webhook N env s rawBody sig now)) rawBody sig now'))
           = orders (snd (webhook N env s rawBody sig now))"
    by (simp add: w)
  then show ?thesis using acks by blast
qed

text \<open>
  The first delivery marks the pending order \<open>ORD-1\<close> paid; the second one, four seconds
  later, changes nothing. The event names the order in its metadata in the first pair of
  deliveries and carries no metadata in the second.
\<close>

theorem completed_idempotent_witness:
  "map status (orders (snd (webhook rat_ops
      (example_env (example_stripe (CheckoutSessionCompleted (example_session ''cs_A'' (Some ''ORD-1'')))))
      (example_store [example_order ''ORD-1'' Pending (Some ''cs_A'')])
      ''{}'' (Some ''v1=good'') 5000))) = [Paid]
   \<and> orders (snd (webhook rat_ops
      (example_env (example_stripe (CheckoutSessionCompleted (example_session ''cs_A'' (Some ''ORD-1'')))))
      (snd (webhook rat_ops
        (example_env (example_stripe (CheckoutSessionCompleted (example_session ''cs_A'' (Some ''ORD-1'')))))
        (example_store [example_order ''ORD-1'' Pending (Some ''cs_A'')])
        ''{}'' (Some ''v1=good'') 5000))
      ''{}'' (Some ''v1=good'') 9000))
     = orders (snd (webhook rat_ops
      (example_env (example_stripe (CheckoutSessionCompleted (example_session ''cs_A'' (Some ''ORD-1'')))))
      (example_store [example_order ''ORD-1'' Pending (Some ''cs_A'')])
      ''{}'' (Some ''v1=good'') 5000))
   \<and> map status (orders (snd (webhook rat_ops
      (example_env (example_stripe (CheckoutSessionCompleted (example_session ''cs_A'' None))))
      (example_store [example_order ''ORD-1'' Pending (Some ''cs_A'')])
      ''{}'' (Some ''v1=good'') 5000))) = [Paid]
   \<and> orders (snd (webhook rat_ops
      (example_env (example_stripe (CheckoutSessionCompleted (example_session ''cs_A'' None))))
      (snd (webhook rat_ops
        (example_env (example_stripe (CheckoutSessionCompleted (example_session ''cs_A'' None))))
        (example_store [example_order ''ORD-1'' Pending (Some ''cs_A'')])
        ''{}'' (Some ''v1=good'') 5000))
      ''{}'' (Some ''v1=good'') 9000))
     = orders (snd (webhook rat_ops
      (example_env (example_stripe (CheckoutSessionCompleted (example_session ''cs_A'' None))))
      (example_store [example_order ''ORD-1'' Pending (Some ''cs_A'')])
      ''{}'' (Some ''v1=good'') 5000))"
proof -
  let ?s = "example_store [example_order ''ORD-1'' Pending (Some ''cs_A'')]"
  have c: "\<And>session.
      stripe (example_env (example_stripe (CheckoutSessionCompleted session)))
        = Some (example_stripe (CheckoutSessionCompleted session))
      \<and> str_truthy (STRIPE_WEBHOOK_SECRET
            (example_env (example_stripe (CheckoutSessionCompleted session))))
      \<and> constructEvent (example_stripe (CheckoutSessionCompleted session)) ''{}''
            (Some ''v1=good'')
            (the (STRIPE_WEBHOOK_SECRET
               (example_env (example_stripe (CheckoutSessionCompleted session)))))
          = Inr (CheckoutSessionCompleted session)"
    by (simp add: example_env_def example_stripe_def)
  let ?m = "example_session ''cs_A'' (Some ''ORD-1'')"
  let ?f = "example_session ''cs_A'' None"
  have a: "map status (orders (snd (webhook rat_ops
             (example_env (example_stripe (CheckoutSessionCompleted ?m))) ?s
             ''{}'' (Some ''v1=good'') 5000))) = [Paid]"
    by (simp add: example_defs route_defs)
  have b: "map status (orders (snd (webhook rat_ops
             (example_env (example_stripe (CheckoutSessionCompleted ?f))) ?s
             ''{}'' (Some ''v1=good'') 5000))) = [Paid]"
    by (simp add: example_defs route_defs)
  have m: "orders (snd (webhook rat_ops (example_env (example_stripe (CheckoutSessionCompleted ?m)))
        (snd (webhook rat_ops (example_env (example_stripe (CheckoutSessionCompleted ?m))) ?s
           ''{}'' (Some ''v1=good'') 5000)) ''{}'' (Some ''v1=good'') 9000))
      = orders (snd (webhook rat_ops (example_env (example_stripe (CheckoutSessionCompleted ?m))) ?s
           ''{}'' (Some ''v1=good'') 5000))"
    using completed_idempotent [of _ _ "''{}''" "Some ''v1=good''" ?m rat_ops ?s 5000 9000]
      c [of ?m] by blast
  have f: "orders (snd (webhook rat_ops (example_env (example_stripe (CheckoutSessionCompleted ?f)))
        (snd (webhook rat_ops (example_env (example_stripe (CheckoutSessionCompleted ?f))) ?s
           ''{}'' (Some ''v1=good'') 5000)) ''{}'' (Some ''v1=good'') 9000))
      = orders (snd (webhook rat_ops (example_env (example_stripe (CheckoutSessionCompleted ?f))) ?s
           ''{}'' (Some ''v1=good'') 5000))"
    using completed_idempotent [of _ _ "''{}''" "Some ''v1=good''" ?f rat_ops ?s 5000 9000]
      c [of ?f] by blast
  show ?thesis using a b m f by simp
qed

section \<open>Errors of the store in the read operations\<close>

text \<open>
  C10. Each read operation of the order service answers with the not-found value (\<open>null\<close>,
  or the empty list for \<open>getOrdersByEmail\<close>) when the adapter throws. So on a store whose
  adapter is not connected each of them returns what it returns on a working store that
  holds no order: the caller cannot tell the failure from an absent order.
\<close>

theorem reads_swallow_errors:
  "(db_getOrderById s orderId = Inl e \<longrightarrow> fst (getOrderById s orderId) = None)
   \<and> (db_findOrderByStripeSessionId s sessionId = Inl e \<longrightarrow>
        fst (findOrderByStripeSessionId s sessionId) = None)
   \<and> (fst (db_findPendingOrderByItems N s its email now) = Inl e \<longrightarrow>
        fst (findPendingOrderByItems N s its email now) = None)
   \<and> (db_getOrdersByEmail s address = Inl e \<longrightarrow> fst (getOrdersByEmail s address) = [])
   \<and> (\<not> isConnected s \<longrightarrow>
        fst (getOrderById s orderId) = fst (getOrderById empty_store orderId)
        \<and> fst (findOrderByStripeSessionId s sessionId)
            = fst (findOrderByStripeSessionId empty_store sessionId)
        \<and> fst (findPendingOrderByItems N s its email now)
            = fst (findPendingOrderByItems N empty_store its email now)
        \<and> fst (getOrdersByEmail s address) = fst (getOrdersByEmail empty_store address))"
proof (intro conjI impI)
  assume "db_getOrderById s orderId = Inl e"
  then show "fst (getOrderById s orderId) = None"
    by (simp add: getOrderById_def)
next
  assume "db_findOrderByStripeSessionId s sessionId = Inl e"
  then show "fst (findOrderByStripeSessionId s sessionId) = None"
    by (simp add: findOrderByStripeSessionId_def)
next
  assume "fst (db_findPendingOrderByItems N s its email now) = Inl e"
  then show "fst (findPendingOrderByItems N s its email now) = None"
    by (cases "db_findPendingOrderByItems N s its email now")
      (simp add: findPendingOrderByItems_def)
next
  assume "db_getOrdersByEmail s address = Inl e"
  then show "fst (getOrdersByEmail s address) = []"
    by (simp add: getOrdersByEmail_def)
next
  assume "\<not> isConnected s"
  then show "fst (getOrderById s orderId) = fst (getOrderById empty_store orderId)"
    by (simp add: getOrderById_def db_getOrderById_def db_findOrderByStripeSessionId_def
        select_single_def select_where_def single_row_def empty_store_def)
next
  assume "\<not> isConnected s"
  then show "fst (findOrderByStripeSessionId s sessionId)
             = fst (findOrderByStripeSessionId empty_store sessionId)"
    by (simp add: findOrderByStripeSessionId_def db_findOrderByStripeSessionId_def
        select_single_def select_where_def single_row_def empty_store_def)
next
  assume "\<not> isConnected s"
  then show "fst (findPendingOrderByItems N s its email now)
             = fst (findPendingOrderByItems N empty_store its email now)"
    by (simp add: findPendingOrderByItems_def db_findPendingOrderByItems_def
        select_where_def empty_store_def split: sum.splits)
next
  assume "\<not> isConnected s"
  then show "fst (getOrdersByEmail s address) = fst (getOrdersByEmail empty_store address)"
    by (simp add: getOrdersByEmail_def db_getOrdersByEmail_def select_where_def
        newest_first_def empty_store_def)
qed

text \<open>
  The adapter is not connected and the table holds \<open>ORD-1\<close>: every read operation throws
  in the adapter and the service answers not found, although the order is found when the
  adapter is connected.
\<close>

theorem reads_swallow_errors_witness:
  "db_getOrderById (unreachable_store [example_order ''ORD-1'' Paid (Some ''cs_A'')]) ''ORD-1''
     = Inl not_connected
   \<and> fst (getOrderById (unreachable_store [example_order ''ORD-1'' Paid (Some ''cs_A'')]) ''ORD-1'')
     = None
   \<and> fst (findOrderByStripeSessionId
            (unreachable_store [example_order ''ORD-1'' Paid (Some ''cs_A'')]) ''cs_A'') = None
   \<and> fst (findPendingOrderByItems rat_ops
            (unreachable_store [example_order ''ORD-1'' Pending (Some ''cs_A'')])
            [course ''c1'' (4999 / 100) 2] (Some ''kid@example.org'') 2000) = None
   \<and> fst (getOrdersByEmail (unreachable_store [example_order ''ORD-1'' Paid (Some ''cs_A'')])
            ''kid@example.org'') = []
   \<and> fst (getOrderById (example_store [example_order ''ORD-1'' Paid (Some ''cs_A'')]) ''ORD-1'')
     = Some (example_order ''ORD-1'' Paid (Some ''cs_A''))"
proof -
  let ?s = "unreachable_store [example_order ''ORD-1'' Paid (Some ''cs_A'')]"
  let ?p = "unreachable_store [example_order ''ORD-1'' Pending (Some ''cs_A'')]"
  have a: "db_getOrderById ?s ''ORD-1'' = Inl not_connected"
    by (simp add: db_getOrderById_def unreachable_store_def)
  have b: "db_findOrderByStripeSessionId ?s ''cs_A'' = Inl not_connected"
    by (simp add: db_findOrderByStripeSessionId_def unreachable_store_def)
  have c: "fst (db_findPendingOrderByItems rat_ops ?p [course ''c1'' (4999 / 100) 2]
             (Some ''kid@example.org'') 2000) = Inl not_connected"
    by (simp add: db_findPendingOrderByItems_def unreachable_store_def)
  have d: "db_getOrdersByEmail ?s ''kid@example.org'' = Inl not_connected"
    by (simp add: db_getOrdersByEmail_def unreachable_store_def)
  have e: "fst (getOrderById (example_store [example_order ''ORD-1'' Paid (Some ''cs_A'')]) ''ORD-1'')
     = Some (example_order ''ORD-1'' Paid (Some ''cs_A''))"
    by (simp add: getOrderById_def db_getOrderById_def select_single_def select_where_def
        single_row_def example_store_def example_order_def inserted_row_def)
  show ?thesis
    using reads_swallow_errors [of ?s "''ORD-1''" not_connected "''cs_A''" rat_ops
        "[course ''c1'' (4999 / 100) 2]" "Some ''kid@example.org''" 2000 "''kid@example.org''"]
      reads_swallow_errors [of ?p "''ORD-1''" not_connected "''cs_A''" rat_ops
        "[course ''c1'' (4999 / 100) 2]" "Some ''kid@example.org''" 2000 "''kid@example.org''"]
      a b c d e
    by simp
qed

section \<open>Validation of the cart\<close>

text \<open>
  A request without an items array, with an empty one, with an item (other than \<open>null\<close>)
  that lacks a truthy id, name or quantity or a numeric price, or with a total that is
  not above zero, is answered 400 and leaves the store as it is.
\<close>

lemma rejects_some_no_null:
  assumes "JNull \<notin> set its"
  shows "rejects_some N its = Inr (\<exists>item\<in>set its. item_rejected N item)"
  using assms by (induction its) (auto split: json.splits)

lemma checkout_validation:
  assumes "stripe env = Some client"
    and "b_items b = None \<or> (\<forall>its. b_items b \<noteq> Some (JArr its)) \<or> b_items b = Some (JArr [])
         \<or> (\<exists>its. b_items b = Some (JArr its) \<and> JNull \<notin> set its
               \<and> ((\<exists>item\<in>set its. item_rejected N item)
                    \<or> nle N (totalAmount N its) (num_of N 0)))"
  shows "\<exists>m. createCheckoutSession N env s b now random = ((400, ErrorBody m None), s)"
proof -
  have "\<exists>m. checkout_body N env client s b now random = (Inr (400, ErrorBody m None), s)"
  proof (cases "b_items b")
    case None
    then show ?thesis by (simp add: checkout_body_def)
  next
    case (Some v)
    show ?thesis
    proof (cases v)
      case (JArr its)
      show ?thesis
      proof (cases "its = []")
        case True
        then show ?thesis using Some JArr by (simp add: checkout_body_def)
      next
        case False
        then have h: "JNull \<notin> set its"
          "(\<exists>item\<in>set its. item_rejected N item) \<or> nle N (totalAmount N its) (num_of N 0)"
          using assms(2) Some JArr by auto
        show ?thesis
        proof (cases "\<exists>item\<in>set its. item_rejected N item")
          case True
          then have "rejects_some N its = Inr True"
            using h(1) by (simp add: rejects_some_no_null)
          then show ?thesis using Some JArr False by (simp add: checkout_body_def)
        next
          case no: False
          then have "rejects_some N its = Inr False"
            using h(1) by (simp add: rejects_some_no_null)
          moreover have "nle N (totalAmount N its) (num_of N 0)" using h(2) no by simp
          ultimately show ?thesis using Some JArr False by (simp add: checkout_body_def)
        qed
      qed
    qed (use Some in \<open>simp_all add: checkout_body_def\<close>)
  qed
  then show ?thesis using assms(1) by (auto simp: createCheckoutSession_def)
qed

text \<open>
  C8. The claim fails for an item that is \<open>null\<close>: on the body \<open>{ "items": [null] }\<close> the
  validation loop reads \<open>item.id\<close>, which throws a TypeError, and the outer \<open>catch\<close> answers
  500 instead of 400. No order is created.
\<close>

theorem null_item_answers_500:
  "createCheckoutSession rat_ops (example_env (example_stripe (OtherEvent ''none'')))
     (example_store [])
     \<lparr> b_items = Some (JArr [JNull]), b_customerEmail = Some ''kid@example.org'',
       b_customerName = None, b_locale = None \<rparr> 5000 ''k3x9q2a''
   = ((500, ErrorBody ''Failed to create checkout session''
              (Some ''Cannot read properties of null (reading id)'')),
      logger LError ''Error creating checkout session'' (example_store []))"
  by (simp add: createCheckoutSession_def checkout_body_def example_env_def)

section \<open>Failure of the payment provider\<close>

lemma getOrdersByEmail_snd [simp]:
  "orders (snd (getOrdersByEmail s k)) = orders s"
  "isConnected (snd (getOrdersByEmail s k)) = isConnected s"
  "client_error (snd (getOrdersByEmail s k)) = client_error s"
  by (simp_all add: getOrdersByEmail_def split: sum.splits)

lemma existing_session_snd [simp]:
  "orders (snd (existing_session client s rp)) = orders s"
  "isConnected (snd (existing_session client s rp)) = isConnected s"
  "client_error (snd (existing_session client s rp)) = client_error s"
  by (simp_all add: existing_session_def Let_def split: option.splits sum.splits)

lemma existing_session_fst:
  "fst (existing_session client s rp) = fst (existing_session client s' rp)"
  by (simp add: existing_session_def Let_def split: option.splits sum.splits)

lemma createOrder_ok:
  assumes "isConnected s" "client_error s = None"
    and "\<forall>r\<in>set (orders s). order_id r \<noteq> generateOrderId now random"
  shows "\<exists>ord. createOrder N s d now random = (Inr ord, s\<lparr>orders := orders s @ [ord]\<rparr>)
           \<and> order_id ord = generateOrderId now random
           \<and> status ord = (case od_status d of Some st \<Rightarrow> st | None \<Rightarrow> Pending)
           \<and> items ord = od_items d
           \<and> total_amount ord = od_totalAmount d
           \<and> customer_email ord = od_customerEmail d
           \<and> stripe_session_id ord = None
           \<and> error_message ord = None
           \<and> created_at ord = now"
  using assms
  by (simp add: createOrder_def db_createOrder_def insert_single_def inserted_row_def
      list_ex_iff)

lemma transition_fresh:
  assumes "\<forall>r\<in>set rs. order_id r \<noteq> i" "order_id ord = i"
  shows "transition N i st d now (rs @ [ord]) = rs @ [updateData N st d now ord]"
  using assms by (simp add: transition_def map_idI)

lemma applies_fresh:
  assumes "isConnected s" "client_error s = None"
    and "orders s = rs @ [ord]"
    and "\<forall>r\<in>set rs. order_id r \<noteq> order_id ord"
    and "status ord \<noteq> Paid"
    and "\<not> session_taken (rs @ [ord]) (order_id ord) (keep_str sid (stripe_session_id ord))"
  shows "transition_applies s (order_id ord) st sid"
proof -
  have "filter (\<lambda>q. order_id q = order_id ord) rs = []"
    using assms(4) by (simp add: filter_empty_conv)
  then show ?thesis using assms by (simp add: transition_applies_def)
qed

lemma request_session_failed:
  assumes "sessions_create client (checkout_params N env (order_id ord) its email name loc)
             (idempotencyKey (order_id ord) now) = Inl err"
  shows "fst (request_session N env client s ord its email name loc now) = Inl err"
    and "orders (snd (request_session N env client s ord its email name loc now))
         = orders (snd (updateOrderStatus N
             (logger LError ''Stripe error creating checkout session'' s)
             (order_id ord) Failed (no_data\<lparr> error := Some (message err) \<rparr>) now))"
  using assms by (simp_all add: request_session_def split: prod.splits sum.splits)

lemma no_data_simps [simp]:
  "stripeSessionId (no_data\<lparr> error := e \<rparr>) = None"
  "error (no_data\<lparr> error := e \<rparr>) = e"
  by (simp_all add: no_data_def)

text \<open>
  C6. Take a checkout request that passes validation and misses the duplicate guard, on a
  store that accepts the insert (connected, answering, order id not in use). Then
  \<open>createOrder\<close> stores a pending order before the provider is asked for a session. If that
  request throws, the caller is answered 500, and the table afterwards is the old table
  followed by that order with status \<open>failed\<close>; its \<open>error_message\<close> is the provider's
  message when that message is not empty.
\<close>

theorem provider_failure_marks_failed:
  assumes "stripe env = Some client"
    and "b_items b = Some (JArr its)"
    and "its \<noteq> []"
    and "rejects_some N its = Inr False"
    and "\<not> nle N (totalAmount N its) (num_of N 0)"
    and "find_first (recent_pending its now) (fst (getOrdersByEmail s (lookup_email b)))
         = Inr recentPendingOrder"
    and "fst (existing_session client s recentPendingOrder) = None"
    and "isConnected s"
    and "client_error s = None"
    and "\<forall>r\<in>set (orders s). order_id r \<noteq> generateOrderId now random"
    and "sessions_create client
           (checkout_params N env (generateOrderId now random) its (b_customerEmail b)
              (b_customerName b) (case b_locale b of Some l \<Rightarrow> l | None \<Rightarrow> ''en''))
           (idempotencyKey (generateOrderId now random) now) = Inl err"
  shows "(\<exists>ord s1.
            createOrder N s
              \<lparr> od_items = its, od_customerEmail = b_customerEmail b,
                od_customerName = b_customerName b,
                od_locale = Some (case b_locale b of Some l \<Rightarrow> l | None \<Rightarrow> ''en''),
                od_totalAmount = ndiv N (totalAmount N its) (num_of N 100),
                od_status = Some Pending \<rparr> now random = (Inr ord, s1)
            \<and> status ord = Pending \<and> orders s1 = orders s @ [ord]
            \<and> orders (snd (createCheckoutSession N env s b now random))
                = orders s @ [updateData N Failed (no_data\<lparr> error := Some (message err) \<rparr>) now ord])
       \<and> fst (createCheckoutSession N env s b now random)
           = (500, ErrorBody ''Failed to create checkout session''
                (Some (if message err = [] then ''Unknown error occurred'' else message err)))
       \<and> (\<exists>r. orders (snd (createCheckoutSession N env s b now random)) = orders s @ [r]
             \<and> order_id r = generateOrderId now random \<and> status r = Failed
             \<and> items r = its
             \<and> (message err \<noteq> [] \<longrightarrow> error_message r = Some (message err)))"
proof -
  let ?k = "lookup_email b"
  let ?loc = "case b_locale b of Some l \<Rightarrow> l | None \<Rightarrow> ''en''"
  let ?i = "generateOrderId now random"
  let ?d = "\<lparr> od_items = its, od_customerEmail = b_customerEmail b,
              od_customerName = b_customerName b, od_locale = Some ?loc,
              od_totalAmount = ndiv N (totalAmount N its) (num_of N 100),
              od_status = Some Pending \<rparr>"
  let ?fd = "no_data\<lparr> error := Some (message err) \<rparr> :: 'a additionalData"
  obtain ex s1 where g: "getOrdersByEmail s ?k = (ex, s1)"
    by (cases "getOrdersByEmail s ?k")
  have s1: "orders s1 = orders s" "isConnected s1" "client_error s1 = None"
    using getOrdersByEmail_snd [of s ?k] g assms(8,9) by simp_all
  have ff: "find_first (recent_pending its now) ex = Inr recentPendingOrder"
    using assms(6) g by simp
  obtain s2 where e: "existing_session client s1 recentPendingOrder = (None, s2)"
    using assms(7) existing_session_fst [of client s1 recentPendingOrder s]
    by (cases "existing_session client s1 recentPendingOrder") simp
  have s2: "orders s2 = orders s" "isConnected s2" "client_error s2 = None"
    using existing_session_snd [of client s1 recentPendingOrder] e s1 by simp_all
  have fresh2: "\<forall>r\<in>set (orders s2). order_id r \<noteq> ?i"
    using assms(10) s2 by simp
  obtain ord where c2: "createOrder N s2 ?d now random = (Inr ord, s2\<lparr>orders := orders s2 @ [ord]\<rparr>)"
    and ord: "order_id ord = ?i" "status ord = Pending" "items ord = its"
      "stripe_session_id ord = None"
    using createOrder_ok [OF s2(2,3) fresh2, of N ?d] by auto
  obtain ord' where c0: "createOrder N s ?d now random = (Inr ord', s\<lparr>orders := orders s @ [ord']\<rparr>)"
    using createOrder_ok [OF assms(8,9,10), of N ?d] by auto
  have same: "ord' = ord"
    using c0 c2 by (simp add: createOrder_def db_createOrder_def insert_single_def
        s2 assms(8,9) split: if_splits)
  let ?s3 = "s2\<lparr>orders := orders s2 @ [ord]\<rparr>"
  let ?s4 = "logger LError ''Stripe error creating checkout session'' ?s3"
  have create: "sessions_create client
      (checkout_params N env (order_id ord) its (b_customerEmail b) (b_customerName b) ?loc)
      (idempotencyKey (order_id ord) now) = Inl err"
    using assms(11) ord(1) by simp
  have ap: "transition_applies ?s4 (order_id ord) Failed (stripeSessionId ?fd)"
    by (rule applies_fresh [where rs = "orders s"])
      (use s2 assms(10) ord in \<open>simp_all add: session_taken_def keep_str_def\<close>)
  have upd: "orders (snd (updateOrderStatus N ?s4 (order_id ord) Failed ?fd now))
             = orders s @ [updateData N Failed ?fd now ord]"
    using ap assms(10) ord(1) s2
    by (simp add: update_orders transition_fresh)
  have rs: "fst (request_session N env client ?s3 ord its (b_customerEmail b)
                   (b_customerName b) ?loc now) = Inl err"
    "orders (snd (request_session N env client ?s3 ord its (b_customerEmail b)
                   (b_customerName b) ?loc now))
     = orders s @ [updateData N Failed ?fd now ord]"
    using request_session_failed [OF create, of ?s3] upd by simp_all
  have nc: "new_checkout N env client s2 its (totalAmount N its) (b_customerEmail b)
              (b_customerName b) ?loc now random
            = request_session N env client ?s3 ord its (b_customerEmail b)
                (b_customerName b) ?loc now"
    by (simp add: new_checkout_def c2)
  have cb: "checkout_body N env client s b now random
            = request_session N env client ?s3 ord its (b_customerEmail b)
                (b_customerName b) ?loc now"
    using assms(2-5) g ff e nc by (simp add: checkout_body_def)
  obtain s5 where r5: "request_session N env client ?s3 ord its (b_customerEmail b)
                (b_customerName b) ?loc now = (Inl err, s5)"
    using rs(1) by (cases "request_session N env client ?s3 ord its (b_customerEmail b)
                (b_customerName b) ?loc now") simp
  have final: "createCheckoutSession N env s b now random
      = ((500, ErrorBody ''Failed to create checkout session''
             (Some (if message err = [] then ''Unknown error occurred'' else message err))),
         logger LError ''Error creating checkout session'' s5)"
    using assms(1) cb r5 by (simp add: createCheckoutSession_def)
  have o5: "orders s5 = orders s @ [updateData N Failed ?fd now ord]"
    using rs(2) r5 by simp
  have A: "\<exists>ord s1. createOrder N s ?d now random = (Inr ord, s1)
            \<and> status ord = Pending \<and> orders s1 = orders s @ [ord]
            \<and> orders (snd (createCheckoutSession N env s b now random))
                = orders s @ [updateData N Failed ?fd now ord]"
    using c0 same ord(2) o5 final by auto
  have C: "\<exists>r. orders (snd (createCheckoutSession N env s b now random)) = orders s @ [r]
             \<and> order_id r = ?i \<and> status r = Failed \<and> items r = its
             \<and> (message err \<noteq> [] \<longrightarrow> error_message r = Some (message err))"
    using o5 final ord by (auto simp: keep_str_def)
  show ?thesis using A final C by simp
qed


text \<open>The provider times out on the first cart of an empty store.\<close>

theorem provider_failure_marks_failed_witness:
  "fst (createCheckoutSession rat_ops (example_env failing_stripe) (example_store [])
          (example_body [course ''c1'' (4999 / 100) 2]) 5000 ''k3x9q2a'')
     = (500, ErrorBody ''Failed to create checkout session'' (Some ''Request timed out''))
   \<and> map status (orders (snd (createCheckoutSession rat_ops (example_env failing_stripe)
          (example_store []) (example_body [course ''c1'' (4999 / 100) 2]) 5000 ''k3x9q2a'')))
     = [Failed]
   \<and> map error_message (orders (snd (createCheckoutSession rat_ops (example_env failing_stripe)
          (example_store []) (example_body [course ''c1'' (4999 / 100) 2]) 5000 ''k3x9q2a'')))
     = [Some ''Request timed out'']"
proof -
  let ?its = "[course ''c1'' (4999 / 100) 2]"
  let ?b = "example_body ?its"
  let ?s = "example_store [] :: rat store"
  let ?env = "example_env failing_stripe"
  have 1: "stripe ?env = Some failing_stripe" by (simp add: example_env_def)
  have 2: "b_items ?b = Some (JArr ?its)" by (simp add: example_body_def)
  have 3: "?its \<noteq> []" by simp
  have 4: "rejects_some rat_ops ?its = Inr False"
    by (simp add: course_def item_rejected_def rat_ops_def)
  have 5: "\<not> nle rat_ops (totalAmount rat_ops ?its) (num_of rat_ops 0)"
    by (simp add: course_def totalAmount_def rat_ops_def)
  have 6: "find_first (recent_pending ?its 5000) (fst (getOrdersByEmail ?s (lookup_email ?b)))
           = Inr None"
    by (simp add: getOrdersByEmail_def db_getOrdersByEmail_def select_where_def
        newest_first_def example_store_def example_body_def)
  have 7: "fst (existing_session failing_stripe ?s None) = None"
    by (simp add: existing_session_def)
  have 8: "isConnected ?s" and 9: "client_error ?s = None"
    and 10: "\<forall>r\<in>set (orders ?s). order_id r \<noteq> generateOrderId 5000 ''k3x9q2a''"
    by (simp_all add: example_store_def)
  have 11: "sessions_create failing_stripe
           (checkout_params rat_ops ?env (generateOrderId 5000 ''k3x9q2a'') ?its
              (b_customerEmail ?b) (b_customerName ?b)
              (case b_locale ?b of Some l \<Rightarrow> l | None \<Rightarrow> ''en''))
           (idempotencyKey (generateOrderId 5000 ''k3x9q2a'') 5000)
         = Inl (Error ''Request timed out'')"
    by (simp add: failing_stripe_def)
  have o: "orders ?s = []" by (simp add: example_store_def)
  show ?thesis
    using provider_failure_marks_failed [OF 1 2 3 4 5 6 7 8 9 10 11] o
    by auto
qed

section \<open>The status of a paid order\<close>

lemma paid_in_cong:
  assumes "orders s' = orders s"
  shows "paid_in s' i = paid_in s i"
  using assms by (simp add: paid_in_def)

lemma paid_in_transition:
  assumes "\<exists>r\<in>set rs. order_id r = i \<and> status r = Paid"
    and "st = Paid \<or> \<not> (\<exists>r\<in>set rs. order_id r = j \<and> status r = Paid)"
  shows "\<exists>r\<in>set (transition N j st d now rs). order_id r = i \<and> status r = Paid"
proof -
  from assms(1) obtain r where r: "r \<in> set rs" "order_id r = i" "status r = Paid" by blast
  let ?r' = "if order_id r = j then updateData N st d now r else r"
  have "?r' \<in> set (transition N j st d now rs)"
    using r(1) by (auto simp: transition_def)
  moreover have "order_id ?r' = i" using r(2) by simp
  moreover have "status ?r' = Paid" using r assms(2) by auto
  ultimately show ?thesis by blast
qed


lemma mark_paid_keeps_paid:
  assumes "paid_in s i"
  shows "paid_in (snd (mark_paid N s j d now)) i"
  using assms paid_in_transition [of "orders s" i Paid j N d now]
  by (auto simp: paid_in_def list_ex_iff mark_paid_orders)















section \<open>A repeated checkout request\<close>

lemma rejects_no_null:
  assumes "rejects_some N its = Inr False"
  shows "JNull \<notin> set its"
  using assms by (induction its) (auto split: json.splits if_splits)

lemma id_quantity_no_null:
  assumes "JNull \<notin> set its"
  shows "id_quantity its = Inr (map (\<lambda>i. (field i ''id'', field i ''quantity'')) its)"
  using assms by (induction its) (auto split: json.splits)

lemma id_quantity_length:
  assumes "id_quantity its = Inr ps"
  shows "length ps = length its"
  using assms by (induction its arbitrary: ps) (auto split: json.splits sum.splits)

lemma insort_before_last:
  assumes "f x \<le> f a"
  shows "insort_key f x (ys @ [a]) = insort_key f x ys @ [a]"
  using assms by (induction ys) auto

lemma sort_key_snoc:
  assumes "\<forall>x\<in>set xs. f x \<le> f a"
  shows "sort_key f (xs @ [a]) = sort_key f xs @ [a]"
  using assms
proof (induction xs)
  case Nil
  then show ?case by simp
next
  case (Cons x xs)
  then show ?case by (simp add: insort_before_last)
qed

lemma newest_first_snoc:
  assumes "\<forall>r\<in>set rs. created_at r \<le> created_at new"
  shows "newest_first (rs @ [new]) = new # newest_first rs"
  using assms by (simp add: newest_first_def sort_key_snoc)


lemma lookup_email_Some [simp]: "b_customerEmail b = Some e \<Longrightarrow> lookup_email b = e"
  by (simp add: lookup_email_def)

lemma getOrdersByEmail_ok:
  assumes "isConnected s" "client_error s = None"
  shows "getOrdersByEmail s e
         = (newest_first (filter (\<lambda>r. customer_email r = Some e) (orders s)), s)"
  using assms by (simp add: getOrdersByEmail_def db_getOrdersByEmail_def select_where_def)

lemma checkout_reuses:
  assumes "stripe env = Some client"
    and "b_items b = Some (JArr its)"
    and "rejects_some N its = Inr False"
    and "\<not> nle N (totalAmount N its) (num_of N 0)"
    and "b_customerEmail b = Some e"
    and "isConnected s"
    and "client_error s = None"
    and "orders s = rs @ [ord]"
    and "\<forall>r\<in>set rs. customer_email r = Some e \<longrightarrow> created_at r < created_at ord"
    and "customer_email ord = Some e"
    and "status ord = Pending"
    and "id_quantity (items ord) = id_quantity its"
    and "int now - five_minutes < int (created_at ord)"
    and "stripe_session_id ord = Some sid"
    and "sid \<noteq> []"
    and "sessions_retrieve client sid = Inr existingSession"
    and "sess_status existingSession = Some ''open''"
    and "its \<noteq> []"
  shows "createCheckoutSession N env s b now random
         = ((200, Checkout (sess_id existingSession) (order_id ord) (sess_url existingSession)
                    (Some ''Using existing checkout session'')),
            logger LWarn ''Found existing pending order with session'' s)"
proof -
  let ?P = "\<lambda>r. customer_email r = Some e"
  have nn: "JNull \<notin> set its" using assms(3) by (rule rejects_no_null)
  then have iq: "id_quantity its = Inr (map (\<lambda>i. (field i ''id'', field i ''quantity'')) its)"
    by (rule id_quantity_no_null)
  have len: "length (items ord) = length its"
    using id_quantity_length [of "items ord"] assms(12) iq by simp
  have "filter ?P (orders s) = filter ?P rs @ [ord]"
    using assms(8,10) by simp
  moreover have "\<forall>r\<in>set (filter ?P rs). created_at r \<le> created_at ord"
    using assms(9) by (auto simp: less_imp_le)
  ultimately have nf: "newest_first (filter ?P (orders s)) = ord # newest_first (filter ?P rs)"
    by (simp add: newest_first_snoc)
  have g: "getOrdersByEmail s (lookup_email b) = (ord # newest_first (filter ?P rs), s)"
    using getOrdersByEmail_ok [OF assms(6,7), of e] nf assms(5) by simp
  have rp: "recent_pending its now ord = Inr True"
    using assms(11,12,13) len iq by (simp add: recent_pending_def)
  have ff: "find_first (recent_pending its now) (ord # newest_first (filter ?P rs))
            = Inr (Some ord)"
    by (simp add: rp)
  have es: "existing_session client s (Some ord)
            = (Some (200, Checkout (sess_id existingSession) (order_id ord)
                       (sess_url existingSession) (Some ''Using existing checkout session'')),
               logger LWarn ''Found existing pending order with session'' s)"
    using assms(14-17) by (simp add: existing_session_def)
  have "checkout_body N env client s b now random
        = (Inr (200, Checkout (sess_id existingSession) (order_id ord)
                  (sess_url existingSession) (Some ''Using existing checkout session'')),
           logger LWarn ''Found existing pending order with session'' s)"
    using assms(2,3,4,18) g ff es by (simp add: checkout_body_def)
  then show ?thesis using assms(1) by (simp add: createCheckoutSession_def)
qed


lemma request_session_created:
  assumes "sessions_create client (checkout_params N env (order_id ord) its email name loc)
             (idempotencyKey (order_id ord) now) = Inr session"
  shows "fst (request_session N env client s ord its email name loc now)
         = Inr (200, Checkout (sess_id session) (order_id ord) (sess_url session) None)"
    and "orders (snd (request_session N env client s ord its email name loc now))
         = orders (snd (updateOrderStatus N s (order_id ord) Pending
             (no_data\<lparr> stripeSessionId := Some (sess_id session),
                       stripePaymentIntentId := first_str (sess_payment_intent session) None \<rparr>)
             now))"
    and "isConnected (snd (request_session N env client s ord its email name loc now))
         = isConnected s"
    and "client_error (snd (request_session N env client s ord its email name loc now))
         = client_error s"
proof -
  let ?d = "no_data\<lparr> stripeSessionId := Some (sess_id session),
                   stripePaymentIntentId := first_str (sess_payment_intent session) None \<rparr>
            :: 'a additionalData"
  obtain r s1 where u: "updateOrderStatus N s (order_id ord) Pending ?d now = (r, s1)"
    by (cases "updateOrderStatus N s (order_id ord) Pending ?d now")
  have fl: "isConnected s1 = isConnected s" "client_error s1 = client_error s"
    using update_flags [of N s "order_id ord" Pending ?d now] u by simp_all
  show "fst (request_session N env client s ord its email name loc now)
         = Inr (200, Checkout (sess_id session) (order_id ord) (sess_url session) None)"
    using assms u by (simp add: request_session_def split: sum.splits)
  show "orders (snd (request_session N env client s ord its email name loc now))
         = orders (snd (updateOrderStatus N s (order_id ord) Pending ?d now))"
    using assms u by (simp add: request_session_def split: sum.splits)
  show "isConnected (snd (request_session N env client s ord its email name loc now))
         = isConnected s"
    using assms u fl by (simp add: request_session_def split: sum.splits)
  show "client_error (snd (request_session N env client s ord its email name loc now))
         = client_error s"
    using assms u fl by (simp add: request_session_def split: sum.splits)
qed

lemma checkout_creates:
  assumes "stripe env = Some client"
    and "b_items b = Some (JArr its)"
    and "its \<noteq> []"
    and "rejects_some N its = Inr False"
    and "\<not> nle N (totalAmount N its) (num_of N 0)"
    and "find_first (recent_pending its now) (fst (getOrdersByEmail s (lookup_email b)))
         = Inr recentPendingOrder"
    and "fst (existing_session client s recentPendingOrder) = None"
    and "isConnected s"
    and "client_error s = None"
    and "\<forall>r\<in>set (orders s). order_id r \<noteq> generateOrderId now random"
    and "sessions_create client
           (checkout_params N env (generateOrderId now random) its (b_customerEmail b)
              (b_customerName b) (case b_locale b of Some l \<Rightarrow> l | None \<Rightarrow> ''en''))
           (idempotencyKey (generateOrderId now random) now) = Inr session"
    and "sess_id session \<noteq> []"
    and "\<forall>r\<in>set (orders s). stripe_session_id r \<noteq> Some (sess_id session)"
  shows "\<exists>ord sF.
           createCheckoutSession N env s b now random
             = ((200, Checkout (sess_id session) (generateOrderId now random)
                        (sess_url session) None), sF)
           \<and> isConnected sF \<and> client_error sF = None
           \<and> orders sF = orders s @ [ord]
           \<and> order_id ord = generateOrderId now random
           \<and> status ord = Pending
           \<and> items ord = its
           \<and> customer_email ord = b_customerEmail b
           \<and> stripe_session_id ord = Some (sess_id session)
           \<and> created_at ord = now"
proof -
  let ?k = "lookup_email b"
  let ?loc = "case b_locale b of Some l \<Rightarrow> l | None \<Rightarrow> ''en''"
  let ?i = "generateOrderId now random"
  let ?d = "\<lparr> od_items = its, od_customerEmail = b_customerEmail b,
              od_customerName = b_customerName b, od_locale = Some ?loc,
              od_totalAmount = ndiv N (totalAmount N its) (num_of N 100),
              od_status = Some Pending \<rparr>"
  let ?ad = "no_data\<lparr> stripeSessionId := Some (sess_id session),
                   stripePaymentIntentId := first_str (sess_payment_intent session) None \<rparr>
            :: 'a additionalData"
  obtain ex s1 where g: "getOrdersByEmail s ?k = (ex, s1)"
    by (cases "getOrdersByEmail s ?k")
  have s1: "orders s1 = orders s" "isConnected s1" "client_error s1 = None"
    using getOrdersByEmail_snd [of s ?k] g assms(8,9) by simp_all
  have ff: "find_first (recent_pending its now) ex = Inr recentPendingOrder"
    using assms(6) g by simp
  obtain s2 where e: "existing_session client s1 recentPendingOrder = (None, s2)"
    using assms(7) existing_session_fst [of client s1 recentPendingOrder s]
    by (cases "existing_session client s1 recentPendingOrder") simp
  have s2: "orders s2 = orders s" "isConnected s2" "client_error s2 = None"
    using existing_session_snd [of client s1 recentPendingOrder] e s1 by simp_all
  have fresh2: "\<forall>r\<in>set (orders s2). order_id r \<noteq> ?i"
    using assms(10) s2 by simp
  obtain ord where c2: "createOrder N s2 ?d now random = (Inr ord, s2\<lparr>orders := orders s2 @ [ord]\<rparr>)"
    and ord: "order_id ord = ?i" "status ord = Pending" "items ord = its"
      "stripe_session_id ord = None" "customer_email ord = b_customerEmail b"
      "created_at ord = now"
    using createOrder_ok [OF s2(2,3) fresh2, of N ?d] by auto
  let ?s3 = "s2\<lparr>orders := orders s2 @ [ord]\<rparr>"
  have create: "sessions_create client
      (checkout_params N env (order_id ord) its (b_customerEmail b) (b_customerName b) ?loc)
      (idempotencyKey (order_id ord) now) = Inr session"
    using assms(11) ord(1) by simp
  have sid: "stripeSessionId ?ad = Some (sess_id session)"
    by (simp add: no_data_def)
  have nt: "\<not> session_taken (orders s @ [ord]) (order_id ord)
              (keep_str (Some (sess_id session)) (stripe_session_id ord))"
    using assms(12,13) by (auto simp: session_taken_def keep_str_def list_ex_iff)
  have ap: "transition_applies ?s3 (order_id ord) Pending (Some (sess_id session))"
    by (rule applies_fresh [where rs = "orders s"])
      (use s2 assms(10) ord nt in simp_all)
  have upd: "orders (snd (updateOrderStatus N ?s3 (order_id ord) Pending ?ad now))
             = orders s @ [updateData N Pending ?ad now ord]"
    using ap assms(10) ord(1) s2 sid
    by (simp add: update_orders transition_fresh)
  let ?r = "request_session N env client ?s3 ord its (b_customerEmail b)
              (b_customerName b) ?loc now"
  have rs: "fst ?r = Inr (200, Checkout (sess_id session) (order_id ord) (sess_url session) None)"
    "orders (snd ?r) = orders s @ [updateData N Pending ?ad now ord]"
    "isConnected (snd ?r)" "client_error (snd ?r) = None"
    using request_session_created [OF create, of ?s3] upd s2 by simp_all
  have nc: "new_checkout N env client s2 its (totalAmount N its) (b_customerEmail b)
              (b_customerName b) ?loc now random = ?r"
    by (simp add: new_checkout_def c2)
  have cb: "checkout_body N env client s b now random = ?r"
    using assms(2-5) g ff e nc by (simp add: checkout_body_def)
  obtain sF where rF: "?r = (Inr (200, Checkout (sess_id session) (order_id ord)
                                    (sess_url session) None), sF)"
    using rs(1) by (cases ?r) simp
  have final: "createCheckoutSession N env s b now random
      = ((200, Checkout (sess_id session) ?i (sess_url session) None), sF)"
    using assms(1) cb rF ord(1) by (simp add: createCheckoutSession_def)
  have sF: "orders sF = orders s @ [updateData N Pending ?ad now ord]"
    "isConnected sF" "client_error sF = None"
    using rs(2-4) rF by simp_all
  have "stripe_session_id (updateData N Pending ?ad now ord) = Some (sess_id session)"
    using assms(12) sid by (simp add: keep_str_def)
  moreover have "customer_email (updateData N Pending ?ad now ord) = b_customerEmail b"
    using ord(5) by (simp add: keep_str_def no_data_def)
  ultimately show ?thesis
    using final sF ord by (intro exI [where x = "updateData N Pending ?ad now ord"]
        exI [where x = sF]) simp
qed


text \<open>
  C3, as the code has it. Take two checkout requests that give the same customer email
  and carts with the same sequence of (id, quantity) pairs. The first passes validation,
  misses the duplicate guard, has its order stored and receives from the provider a session
  whose id no other order holds, so that the id is attached to the order. Every order
  stored before for that email is older than the first request. The second request is made
  on the store the first one left, less than five minutes after the first, and the
  provider reports the session as \<open>open\<close> under the same id. Then the second request is
  answered with the session id and the order id of the first, and the table of orders
  stays as the first request left it.
\<close>

theorem duplicate_submission_reuses_session:
  assumes "stripe env1 = Some client1"
    and "b_items b1 = Some (JArr its1)"
    and "its1 \<noteq> []"
    and "rejects_some N its1 = Inr False"
    and "\<not> nle N (totalAmount N its1) (num_of N 0)"
    and "find_first (recent_pending its1 t1) (fst (getOrdersByEmail s (lookup_email b1)))
         = Inr recentPendingOrder"
    and "fst (existing_session client1 s recentPendingOrder) = None"
    and "isConnected s"
    and "client_error s = None"
    and "\<forall>r\<in>set (orders s). order_id r \<noteq> generateOrderId t1 random1"
    and "sessions_create client1
           (checkout_params N env1 (generateOrderId t1 random1) its1 (b_customerEmail b1)
              (b_customerName b1) (case b_locale b1 of Some l \<Rightarrow> l | None \<Rightarrow> ''en''))
           (idempotencyKey (generateOrderId t1 random1) t1) = Inr session"
    and "sess_id session \<noteq> []"
    and "\<forall>r\<in>set (orders s). stripe_session_id r \<noteq> Some (sess_id session)"
    and "b_customerEmail b1 = Some e"
    and "\<forall>r\<in>set (orders s). customer_email r = Some e \<longrightarrow> created_at r < t1"
    and "stripe env2 = Some client2"
    and "b_items b2 = Some (JArr its2)"
    and "rejects_some N its2 = Inr False"
    and "\<not> nle N (totalAmount N its2) (num_of N 0)"
    and "b_customerEmail b2 = Some e"
    and "id_quantity its2 = id_quantity its1"
    and "int t2 - five_minutes < int t1"
    and "sessions_retrieve client2 (sess_id session) = Inr existingSession"
    and "sess_status existingSession = Some ''open''"
    and "sess_id existingSession = sess_id session"
  shows "fst (createCheckoutSession N env1 s b1 t1 random1)
           = (200, Checkout (sess_id session) (generateOrderId t1 random1) (sess_url session) None)
       \<and> fst (createCheckoutSession N env2 (snd (createCheckoutSession N env1 s b1 t1 random1))
                b2 t2 random2)
           = (200, Checkout (sess_id session) (generateOrderId t1 random1)
                     (sess_url existingSession) (Some ''Using existing checkout session''))
       \<and> orders (snd (createCheckoutSession N env2
                         (snd (createCheckoutSession N env1 s b1 t1 random1)) b2 t2 random2))
           = orders (snd (createCheckoutSession N env1 s b1 t1 random1))"
proof -
  obtain ord sF where first: "createCheckoutSession N env1 s b1 t1 random1
        = ((200, Checkout (sess_id session) (generateOrderId t1 random1)
                   (sess_url session) None), sF)"
    and sF: "isConnected sF" "client_error sF = None" "orders sF = orders s @ [ord]"
    and ord: "order_id ord = generateOrderId t1 random1" "status ord = Pending"
      "items ord = its1" "customer_email ord = b_customerEmail b1"
      "stripe_session_id ord = Some (sess_id session)" "created_at ord = t1"
    using checkout_creates [OF assms(1-13)] by blast
  have nn: "JNull \<notin> set its1" using assms(4) by (rule rejects_no_null)
  have iq1: "id_quantity its1 = Inr (map (\<lambda>i. (field i ''id'', field i ''quantity'')) its1)"
    using nn by (rule id_quantity_no_null)
  have "length its2 = length its1"
    using id_quantity_length [of its2] assms(21) iq1 by simp
  then have ne2: "its2 \<noteq> []" using assms(3) by auto
  have older: "\<forall>r\<in>set (orders s). customer_email r = Some e \<longrightarrow> created_at r < created_at ord"
    using assms(15) ord(6) by simp
  have second: "createCheckoutSession N env2 sF b2 t2 random2
      = ((200, Checkout (sess_id existingSession) (order_id ord) (sess_url existingSession)
                 (Some ''Using existing checkout session'')),
         logger LWarn ''Found existing pending order with session'' sF)"
    by (rule checkout_reuses [OF assms(16-20) sF older _ ord(2) _ _ ord(5) assms(12)
          assms(23) assms(24) ne2])
      (use ord assms(14,21,22) in simp_all)
  show ?thesis using first second ord(1) assms(25) sF by simp
qed

text \<open>The same cart of two courses is sent twice, one second apart.\<close>

theorem duplicate_submission_reuses_session_witness:
  "fst (createCheckoutSession rat_ops (example_env (example_stripe (OtherEvent ''none'')))
          (example_store []) (example_body two_courses) 1000 ''k3x9q2a'')
     = (200, Checkout ''cs_ORD-1000-K3X9Q2A'' ''ORD-1000-K3X9Q2A''
               (Some ''https://checkout.stripe.com/pay'') None)
   \<and> fst (createCheckoutSession rat_ops (example_env (example_stripe (OtherEvent ''none'')))
          (snd (createCheckoutSession rat_ops (example_env (example_stripe (OtherEvent ''none'')))
             (example_store []) (example_body two_courses) 1000 ''k3x9q2a''))
          (example_body two_courses) 2000 ''m7p4w1z'')
     = (200, Checkout ''cs_ORD-1000-K3X9Q2A'' ''ORD-1000-K3X9Q2A''
               (Some ''https://checkout.stripe.com/pay'') (Some ''Using existing checkout session''))
   \<and> orders (snd (createCheckoutSession rat_ops (example_env (example_stripe (OtherEvent ''none'')))
          (snd (createCheckoutSession rat_ops (example_env (example_stripe (OtherEvent ''none'')))
             (example_store []) (example_body two_courses) 1000 ''k3x9q2a''))
          (example_body two_courses) 2000 ''m7p4w1z''))
     = orders (snd (createCheckoutSession rat_ops (example_env (example_stripe (OtherEvent ''none'')))
          (example_store []) (example_body two_courses) 1000 ''k3x9q2a''))"
proof -
  let ?client = "example_stripe (OtherEvent ''none'')"
  let ?env = "example_env ?client"
  let ?s = "example_store [] :: rat store"
  let ?b = "example_body two_courses"
  let ?i = "generateOrderId 1000 ''k3x9q2a''"
  let ?session = "example_session (''cs_'' @ ?i) (Some ?i)"
  let ?existing = "example_session (''cs_'' @ ?i) None"
  have i: "?i = ''ORD-1000-K3X9Q2A''" by code_simp
  have 1: "stripe ?env = Some ?client" by (simp add: example_env_def)
  have 2: "b_items ?b = Some (JArr two_courses)" by (simp add: example_body_def)
  have 3: "two_courses \<noteq> []" by (simp add: two_courses_def)
  have 4: "rejects_some rat_ops two_courses = Inr False"
    by (simp add: two_courses_def course_def item_rejected_def rat_ops_def)
  have 5: "\<not> nle rat_ops (totalAmount rat_ops two_courses) (num_of rat_ops 0)"
    by (simp add: two_courses_def course_def totalAmount_def rat_ops_def)
  have 6: "find_first (recent_pending two_courses 1000)
             (fst (getOrdersByEmail ?s (lookup_email ?b))) = Inr None"
    by (simp add: getOrdersByEmail_def db_getOrdersByEmail_def select_where_def
        newest_first_def example_store_def)
  have 7: "fst (existing_session ?client ?s None) = None"
    by (simp add: existing_session_def)
  have 8: "isConnected ?s" and 9: "client_error ?s = None"
    and 10: "\<forall>r\<in>set (orders ?s). order_id r \<noteq> ?i"
    and 13: "\<forall>r\<in>set (orders ?s). stripe_session_id r \<noteq> Some (sess_id ?session)"
    and 15: "\<forall>r\<in>set (orders ?s). customer_email r = Some ''kid@example.org'' \<longrightarrow>
               created_at r < 1000"
    by (simp_all add: example_store_def)
  have 11: "sessions_create ?client
           (checkout_params rat_ops ?env ?i two_courses (b_customerEmail ?b) (b_customerName ?b)
              (case b_locale ?b of Some l \<Rightarrow> l | None \<Rightarrow> ''en''))
           (idempotencyKey ?i 1000) = Inr ?session"
    by (simp add: example_stripe_def checkout_params_def session_metadata_of_def Let_def)
  have 12: "sess_id ?session \<noteq> []" by (simp add: example_session_def)
  have 14: "b_customerEmail ?b = Some ''kid@example.org''" by (simp add: example_body_def)
  have 21: "id_quantity two_courses = id_quantity two_courses" by simp
  have 22: "int 2000 - five_minutes < int 1000" by (simp add: five_minutes_def)
  have 23: "sessions_retrieve ?client (sess_id ?session) = Inr ?existing"
    by (simp add: example_stripe_def example_session_def)
  have 24: "sess_status ?existing = Some ''open''"
    and 25: "sess_id ?existing = sess_id ?session"
    by (simp_all add: example_session_def)
  note concl = duplicate_submission_reuses_session [OF 1 2 3 4 5 6 7 8 9 10 11 12 13 14 15
        1 2 4 5 14 21 22 23 24 25, of "''m7p4w1z''"]
  show ?thesis
    using concl by (simp add: i example_session_def)
qed

text \<open>
  C3 as stated fails: the guard compares the carts item by item in their order, not as
  multisets. The second request sends the two courses of the first in the other order,
  one second later; it is answered with a new session and a new order.
\<close>

theorem reordered_cart_creates_second_order:
  "fst (createCheckoutSession rat_ops (example_env (example_stripe (OtherEvent ''none'')))
          (example_store []) (example_body two_courses) 1000 ''k3x9q2a'')
     = (200, Checkout ''cs_ORD-1000-K3X9Q2A'' ''ORD-1000-K3X9Q2A''
               (Some ''https://checkout.stripe.com/pay'') None)
   \<and> map stripe_session_id
        (orders (snd (createCheckoutSession rat_ops (example_env (example_stripe (OtherEvent ''none'')))
          (example_store []) (example_body two_courses) 1000 ''k3x9q2a'')))
     = [Some ''cs_ORD-1000-K3X9Q2A'']
   \<and> fst (createCheckoutSession rat_ops (example_env (example_stripe (OtherEvent ''none'')))
          (snd (createCheckoutSession rat_ops (example_env (example_stripe (OtherEvent ''none'')))
             (example_store []) (example_body two_courses) 1000 ''k3x9q2a''))
          (example_body (rev two_courses)) 2000 ''m7p4w1z'')
     = (200, Checkout ''cs_ORD-2000-M7P4W1Z'' ''ORD-2000-M7P4W1Z''
               (Some ''https://checkout.stripe.com/pay'') None)
   \<and> map order_id
        (orders (snd (createCheckoutSession rat_ops (example_env (example_stripe (OtherEvent ''none'')))
          (snd (createCheckoutSession rat_ops (example_env (example_stripe (OtherEvent ''none'')))
             (example_store []) (example_body two_courses) 1000 ''k3x9q2a''))
          (example_body (rev two_courses)) 2000 ''m7p4w1z'')))
     = [''ORD-1000-K3X9Q2A'', ''ORD-2000-M7P4W1Z'']"
  by code_simp

section \<open>The payment-intent failure event\<close>

text \<open>
  C9. The handler of \<open>payment_intent.payment_failed\<close> looks the order up by passing the id
  of the failed payment intent to \<open>findOrderByStripeSessionId\<close>. When no stored order has
  that id as its \<open>stripe_session_id\<close>, a verified event of this kind leaves the table of
  orders as it is, and the request is acknowledged.
\<close>

theorem payment_failed_frame:
  assumes "stripe env = Some client"
    and "str_truthy (STRIPE_WEBHOOK_SECRET env)"
    and "constructEvent client rawBody sig (the (STRIPE_WEBHOOK_SECRET env))
           = Inr (PaymentIntentPaymentFailed failedPayment)"
    and "\<forall>r\<in>set (orders s). stripe_session_id r \<noteq> Some (pi_id failedPayment)"
  shows "orders (snd (webhook N env s rawBody sig now)) = orders s
         \<and> fst (webhook N env s rawBody sig now) = ack"
proof -
  let ?s0 = "logger LWarn ''PaymentIntent failed'' s"
  have "\<forall>r\<in>set (orders ?s0). stripe_session_id r \<noteq> Some (pi_id failedPayment)"
    using assms(4) by simp
  then have none: "fst (findOrderByStripeSessionId ?s0 (pi_id failedPayment)) = None"
    by (rule find_no_session)
  obtain r s1 where eq: "findOrderByStripeSessionId ?s0 (pi_id failedPayment) = (r, s1)"
    by (cases "findOrderByStripeSessionId ?s0 (pi_id failedPayment)")
  have r: "r = None" using none eq by simp
  have s1: "orders s1 = orders s"
    using find_orders [of ?s0 "pi_id failedPayment"] eq by simp
  have "payment_failed N s failedPayment now = (Inr None, s1)"
    by (simp add: payment_failed_def eq r)
  then show ?thesis
    using assms(1-3) s1 by (simp add: webhook_def caught_def)
qed

text \<open>
  The order \<open>ORD-1\<close> is pending under the checkout session \<open>cs_A\<close>; the payment intent of
  that checkout, \<open>pi_1\<close>, fails. The order stays pending.
\<close>

theorem payment_failed_frame_witness:
  "map stripe_session_id (orders (example_store [example_order ''ORD-1'' Pending (Some ''cs_A'')]))
     = [Some ''cs_A'']
   \<and> map status (orders (snd (webhook rat_ops
        (example_env (example_stripe (PaymentIntentPaymentFailed
           \<lparr> pi_id = ''pi_1'', pi_last_payment_error_message = Some ''Your card was declined.'' \<rparr>)))
        (example_store [example_order ''ORD-1'' Pending (Some ''cs_A'')])
        ''{}'' (Some ''v1=good'') 5000))) = [Pending]"
proof -
  let ?ev = "PaymentIntentPaymentFailed
    \<lparr> pi_id = ''pi_1'', pi_last_payment_error_message = Some ''Your card was declined.'' \<rparr>"
  let ?s = "example_store [example_order ''ORD-1'' Pending (Some ''cs_A'')]"
  have h: "\<forall>r\<in>set (orders ?s). stripe_session_id r \<noteq> Some ''pi_1''"
    by (simp add: example_defs)
  have "orders (snd (webhook rat_ops (example_env (example_stripe ?ev)) ?s
          ''{}'' (Some ''v1=good'') 5000)) = orders ?s"
    using payment_failed_frame [of "example_env (example_stripe ?ev)" "example_stripe ?ev"
        "''{}''" "Some ''v1=good''" "\<lparr> pi_id = ''pi_1'',
          pi_last_payment_error_message = Some ''Your card was declined.'' \<rparr>" ?s rat_ops 5000] h
    by (simp add: example_env_def example_stripe_def)
  moreover have "map status (orders ?s) = [Pending]"
    by (simp add: example_defs)
  moreover have "map stripe_session_id (orders ?s) = [Some ''cs_A'']"
    by (simp add: example_defs)
  ultimately show ?thesis by simp
qed

end
